theory Spec2Isabelle
  imports Complex_Main
begin

section \<open>Numbers, points and images\<close>

text \<open>
  The C++ sources compute with \<^verbatim>\<open>float\<close>. Every \<^verbatim>\<open>float\<close> is modelled by a
  \<^typ>\<open>real\<close>: comparisons, \<^verbatim>\<open>std::min\<close>, \<^verbatim>\<open>std::max\<close>, sums and quotients are the
  exact ones, so rounding, infinities and NaN are outside the model. A literal that a
  \<^verbatim>\<open>float\<close> or a \<^verbatim>\<open>double\<close> cannot hold exactly stands for the value the compiler
  gives it: \<^verbatim>\<open>0.001f\<close> is 8589935 / 8589934592, \<^verbatim>\<open>0.1f\<close> is 13421773 / 134217728,
  \<^verbatim>\<open>0.3f\<close> is 5033165 / 16777216, the \<^verbatim>\<open>double\<close> \<^verbatim>\<open>0.1\<close> is
  3602879701896397 / 36028797018963968 and the \<^verbatim>\<open>double\<close> \<^verbatim>\<open>1.1\<close> is
  2476979795053773 / 2251799813685248. A \<^verbatim>\<open>const float*\<close>
  that points into a tensor is a function from offsets to values (the pointer carries no
  length in the source either); the dimensions travel beside it, as in the source.
  A \<^verbatim>\<open>cv::Mat\<close> image is its number of rows, its number of columns and its pixel buffer;
  \<^verbatim>\<open>cv::Mat()\<close> has no rows, no columns and no pixels.
\<close>

type_synonym point = "real \<times> real"

type_synonym tensor = "nat \<Rightarrow> real"

record 'p Mat =
  rows :: nat
  cols :: nat
  pixels :: "'p list"

definition Mat_empty :: "'p Mat \<Rightarrow> bool" where
  "Mat_empty m = (rows m = 0 \<or> cols m = 0)"

definition Mat_default :: "'p Mat" where
  "Mat_default = \<lparr>rows = 0, cols = 0, pixels = []\<rparr>"

text \<open>
  \<^verbatim>\<open>static_cast<int>(f)\<close> truncates towards zero. The model's integers are unbounded; a
  value that does not fit an \<^verbatim>\<open>int\<close> is undefined behaviour in C++ and outside the model.
\<close>

definition static_cast_int :: "real \<Rightarrow> int" where
  "static_cast_int f = (if 0 \<le> f then \<lfloor>f\<rfloor> else \<lceil>f\<rceil>)"

text \<open>
  \<^verbatim>\<open>std::max(0.0f, std::min(v, static_cast<float>(bound)))\<close>, the clamp used by the layout
  decoder (doc_detector.cpp, lines 214-217) and by the DB decoder (ocr_engine.cpp, lines
  361-362).
\<close>

definition clamp_coord :: "real \<Rightarrow> nat \<Rightarrow> real" where
  "clamp_coord v bound = max 0 (min v (real bound))"

section \<open>Result structures\<close>

text \<open>
  \<^verbatim>\<open>DetectionBox\<close> (doc_detector.h), \<^verbatim>\<open>TextBox\<close> and \<^verbatim>\<open>TextLineResult\<close> (ocr_engine.h) are
  three separate structs that share the field names \<^verbatim>\<open>score\<close> and \<^verbatim>\<open>x1, y1, x2, y2\<close>.
  The records below keep those names by sharing the common fields.
\<close>

record Scored =
  score :: real

record TextBox = Scored +
  points :: "point list"

record ScoredRect = Scored +
  x1 :: real
  y1 :: real
  x2 :: real
  y2 :: real

record DetectionBox = ScoredRect +
  class_id :: int
  class_name :: string

text \<open>The field \<^verbatim>\<open>text\<close> of \<^verbatim>\<open>TextLineResult\<close> is \<open>line_text\<close> here.\<close>

record TextLineResult = ScoredRect +
  line_text :: string

section \<open>Layout detection (doc_detector.cpp)\<close>

definition DOC_CLASSES :: "string list" where
  "DOC_CLASSES =
    [''paragraph_title'', ''image'', ''text'', ''number'', ''abstract'', ''content'',
     ''figure_title'', ''formula'', ''table'', ''table_title'', ''reference'',
     ''doc_title'', ''footnote'', ''header'', ''algorithm'', ''footer'', ''seal'',
     ''chart_title'', ''chart'', ''formula_number'', ''header_image'', ''footer_image'',
     ''aside_text'']"

text \<open>
  \<^verbatim>\<open>preprocessImage\<close> (utils.cpp): the scale factors are target size over original size.
  The resized pixels only feed the inference session, which is a parameter below.
\<close>

definition preprocessImage_scale :: "'p Mat \<Rightarrow> nat \<Rightarrow> nat \<Rightarrow> real \<times> real" where
  "preprocessImage_scale img target_width target_height =
     (real target_width / real (cols img), real target_height / real (rows img))"

text \<open>Line 144: the L model is the one with three inputs.\<close>

definition is_l_model :: "nat \<Rightarrow> bool" where
  "is_l_model num_inputs = (num_inputs = 3)"

text \<open>Lines 195-196: \<^verbatim>\<open>inv_scale_x\<close> and \<^verbatim>\<open>inv_scale_y\<close>.\<close>

definition inv_scale :: "bool \<Rightarrow> real \<times> real \<Rightarrow> real \<times> real" where
  "inv_scale is_l scale_factor =
     (if is_l then 1 else 1 / fst scale_factor, if is_l then 1 else 1 / snd scale_factor)"

text \<open>
  Lines 201-211: the four coordinates of row \<open>i\<close>, multiplied by the inverse scale,
  before they are clamped.
\<close>

definition restore_coords :: "bool \<Rightarrow> real \<times> real \<Rightarrow> tensor \<Rightarrow> nat \<Rightarrow> real \<times> real \<times> real \<times> real" where
  "restore_coords is_l scale_factor output_data i =
     (let inv = inv_scale is_l scale_factor
      in (output_data (i * 6 + 2) * fst inv, output_data (i * 6 + 3) * snd inv,
          output_data (i * 6 + 4) * fst inv, output_data (i * 6 + 5) * snd inv))"

text \<open>
  Lines 199-223, the body of the loop over the rows: \<open>None\<close> when the row is dropped,
  the box that is pushed otherwise. \<open>image_cols\<close> and \<open>image_rows\<close> are
  \<^verbatim>\<open>image.cols\<close> and \<^verbatim>\<open>image.rows\<close>.
\<close>

definition decode_row :: "bool \<Rightarrow> real \<times> real \<Rightarrow> nat \<Rightarrow> nat \<Rightarrow> real \<Rightarrow> tensor \<Rightarrow> nat \<Rightarrow> DetectionBox option" where
  "decode_row is_l scale_factor image_cols image_rows conf_threshold output_data i =
     (let cid = static_cast_int (output_data (i * 6 + 0));
          sc = output_data (i * 6 + 1)
      in if sc \<ge> conf_threshold \<and> cid \<ge> 0 \<and> cid < int (length DOC_CLASSES)
         then (case restore_coords is_l scale_factor output_data i of
                 (bx1, by1, bx2, by2) \<Rightarrow>
                   Some \<lparr>score = sc,
                         x1 = clamp_coord bx1 image_cols,
                         y1 = clamp_coord by1 image_rows,
                         x2 = clamp_coord bx2 image_cols,
                         y2 = clamp_coord by2 image_rows,
                         class_id = cid,
                         class_name = DOC_CLASSES ! nat cid\<rparr>)
         else None)"

text \<open>Lines 198-224: the loop, rows in their order.\<close>

definition decode_rows :: "bool \<Rightarrow> real \<times> real \<Rightarrow> nat \<Rightarrow> nat \<Rightarrow> real \<Rightarrow> nat \<Rightarrow> tensor \<Rightarrow> DetectionBox list" where
  "decode_rows is_l scale_factor image_cols image_rows conf_threshold num_detections output_data =
     List.map_filter (decode_row is_l scale_factor image_cols image_rows conf_threshold output_data)
       [0..<num_detections]"

text \<open>
  The ONNX session is outside the repository. It is a parameter: the number of inputs
  the model declares, and \<open>run\<close>, which for the image gives the output tensor (its
  first dimension and its data) or \<open>None\<close> when preprocessing or inference throws
  (\<^verbatim>\<open>Ort::Exception\<close>, \<^verbatim>\<open>cv::Exception\<close>, \<^verbatim>\<open>std::exception\<close>: all three are caught at
  lines 226-232, and the results collected so far, none, are returned). A session that
  could not be created is \<open>None\<close>.
\<close>

record 'p layout_session =
  num_inputs :: nat
  run :: "'p Mat \<Rightarrow> (nat \<times> tensor) option"

definition detectDocLayout :: "'p layout_session option \<Rightarrow> 'p Mat \<Rightarrow> real \<Rightarrow> DetectionBox list" where
  "detectDocLayout g_session img conf_threshold =
     (if Mat_empty img then []
      else case g_session of
        None \<Rightarrow> []
      | Some s \<Rightarrow>
          (let scale_factor = preprocessImage_scale img 640 640
           in case run s img of
                None \<Rightarrow> []
              | Some (num_detections, output_data) \<Rightarrow>
                  decode_rows (is_l_model (num_inputs s)) scale_factor (cols img) (rows img)
                    conf_threshold num_detections output_data))"

section \<open>Faults\<close>

text \<open>
  What can leave a function other than its result: the three exception classes the
  sources catch, and undefined behaviour (a read outside a \<^verbatim>\<open>std::vector\<close>).
\<close>

datatype fault = OrtException | CvException | StdException | UndefinedBehaviour

section \<open>CTC greedy decoding (ocr_engine.cpp, \<^verbatim>\<open>OcrEngine::CTCDecode\<close>)\<close>

text \<open>Lines 409-415: minimum and sum of the first \<open>vocab_size\<close> entries.\<close>

definition first_min :: "tensor \<Rightarrow> nat \<Rightarrow> real" where
  "first_min output_data vocab_size =
     fold (\<lambda>i m. min m (output_data i)) [0..<vocab_size] (output_data 0)"

definition first_sum :: "tensor \<Rightarrow> nat \<Rightarrow> real" where
  "first_sum output_data vocab_size = fold (\<lambda>i s. s + output_data i) [0..<vocab_size] 0"

text \<open>
  Line 421: \<^verbatim>\<open>first_min < -0.001f || std::abs(first_sum - 1.0f) > 0.1f\<close>, with the values of
  the two \<^verbatim>\<open>float\<close> literals.
\<close>

definition need_softmax :: "tensor \<Rightarrow> nat \<Rightarrow> bool" where
  "need_softmax output_data vocab_size =
     (first_min output_data vocab_size < - (8589935 / 8589934592)
      \<or> \<bar>first_sum output_data vocab_size - 1\<bar> > 13421773 / 134217728)"

text \<open>
  Lines 429-455: the vector \<^verbatim>\<open>probs\<close> of timestep \<open>t\<close>, as a function of the index
  \<open>v\<close>; \<^verbatim>\<open>timestep_data[v]\<close> is \<open>output_data (t * vocab_size + v)\<close>.
\<close>

definition max_logit :: "tensor \<Rightarrow> nat \<Rightarrow> nat \<Rightarrow> real" where
  "max_logit output_data vocab_size t =
     fold (\<lambda>v m. max m (output_data (t * vocab_size + v))) [1..<vocab_size]
       (output_data (t * vocab_size + 0))"

definition sum_exp :: "tensor \<Rightarrow> nat \<Rightarrow> nat \<Rightarrow> real" where
  "sum_exp output_data vocab_size t =
     fold (\<lambda>v s. s + exp (output_data (t * vocab_size + v) - max_logit output_data vocab_size t))
       [0..<vocab_size] 0"

definition probs :: "bool \<Rightarrow> tensor \<Rightarrow> nat \<Rightarrow> nat \<Rightarrow> nat \<Rightarrow> real" where
  "probs softmax output_data vocab_size t v =
     (if softmax
      then exp (output_data (t * vocab_size + v) - max_logit output_data vocab_size t)
             / sum_exp output_data vocab_size t
      else output_data (t * vocab_size + v))"

text \<open>Lines 458-465: the first index of the largest entry, and that entry.\<close>

definition argmax :: "(nat \<Rightarrow> real) \<Rightarrow> nat \<Rightarrow> nat \<times> real" where
  "argmax p vocab_size =
     fold (\<lambda>v (max_idx, max_val). if p v > max_val then (v, p v) else (max_idx, max_val))
       [1..<vocab_size] (0, p 0)"

text \<open>
  The variables the loop carries. \<^verbatim>\<open>blank_count\<close> and \<^verbatim>\<open>indices_str\<close> only feed the
  log and are left out.
\<close>

record ctc_state =
  result :: string
  total_score :: real
  char_count :: nat
  prev_idx :: int

definition ctc_init :: ctc_state where
  "ctc_init = \<lparr>result = [], total_score = 0, char_count = 0, prev_idx = - 1\<rparr>"

text \<open>Lines 467-483, for the \<^verbatim>\<open>max_idx\<close> and \<^verbatim>\<open>max_val\<close> of one timestep.\<close>

definition ctc_step :: "string list \<Rightarrow> nat \<times> real \<Rightarrow> ctc_state \<Rightarrow> ctc_state" where
  "ctc_step dictionary mx st =
     (case mx of (max_idx, max_val) \<Rightarrow>
       (if max_idx = 0 then st
        else if int max_idx \<noteq> prev_idx st then
          (if int max_idx < int (length dictionary)
           then st\<lparr>result := result st @ dictionary ! max_idx,
                   total_score := total_score st + max_val,
                   char_count := char_count st + 1\<rparr>
           else st)
        else st)
       \<lparr>prev_idx := int max_idx\<rparr>)"

text \<open>Lines 428-484: the loop over the timesteps.\<close>

definition ctc_loop :: "string list \<Rightarrow> tensor \<Rightarrow> nat \<Rightarrow> nat \<Rightarrow> ctc_state" where
  "ctc_loop dictionary output_data seq_len vocab_size =
     fold (\<lambda>t. ctc_step dictionary
                  (argmax (probs (need_softmax output_data vocab_size) output_data vocab_size t)
                     vocab_size))
       [0..<seq_len] ctc_init"

text \<open>
  The whole function. With \<open>vocab_size = 0\<close> the vector \<^verbatim>\<open>probs\<close> is empty and line 459
  reads \<^verbatim>\<open>probs[0]\<close> in the first timestep: undefined behaviour.
\<close>

definition CTCDecode :: "string list \<Rightarrow> tensor \<Rightarrow> nat \<Rightarrow> nat \<Rightarrow> fault + string \<times> real" where
  "CTCDecode dictionary output_data seq_len vocab_size =
     (if vocab_size = 0 \<and> 0 < seq_len then Inl UndefinedBehaviour
      else let st = ctc_loop dictionary output_data seq_len vocab_size;
               avg_score = (if char_count st > 0
                            then total_score st / real (char_count st) else 0)
           in Inr (result st, avg_score))"

text \<open>The \<^verbatim>\<open>max_idx\<close> and the \<^verbatim>\<open>max_val\<close> of timestep \<open>t\<close>.\<close>

definition max_idx_at :: "tensor \<Rightarrow> nat \<Rightarrow> nat \<Rightarrow> nat" where
  "max_idx_at output_data vocab_size t =
     fst (argmax (probs (need_softmax output_data vocab_size) output_data vocab_size t) vocab_size)"

definition max_val_at :: "tensor \<Rightarrow> nat \<Rightarrow> nat \<Rightarrow> real" where
  "max_val_at output_data vocab_size t =
     snd (argmax (probs (need_softmax output_data vocab_size) output_data vocab_size t) vocab_size)"

subsection \<open>The decoder as the specification describes it\<close>

text \<open>
  These two definitions follow the words of the specification, not the code; the
  theorems on CTC decoding compare the code with them. A timestep emits when its argmax
  index is not the blank 0, differs from the argmax index of the timestep just before
  (there is none before the first) and is an index of the dictionary. The confidence
  is the arithmetic mean of the emitted probabilities, and 0 when there are none.
\<close>

definition spec_emits :: "string list \<Rightarrow> (nat \<Rightarrow> nat) \<Rightarrow> nat \<Rightarrow> bool" where
  "spec_emits dictionary idx t =
     (idx t \<noteq> 0 \<and> (t = 0 \<or> idx t \<noteq> idx (t - 1)) \<and> idx t < length dictionary)"

definition spec_mean :: "real list \<Rightarrow> real" where
  "spec_mean ps = (if ps = [] then 0 else sum_list ps / real (length ps))"

section \<open>OpenCV\<close>

text \<open>
  OpenCV is outside the repository. Its elementwise operations are written out from its
  documentation; its geometric algorithms are parameters of the model.

  \<^verbatim>\<open>cv::minMaxLoc\<close>: the smallest and the largest entry, both 0 for an empty matrix.
\<close>

definition minMaxLoc :: "real list \<Rightarrow> real \<times> real" where
  "minMaxLoc vs = (if vs = [] then (0, 0) else (fold min vs (hd vs), fold max vs (hd vs)))"

text \<open>
  \<^verbatim>\<open>cv::mean(src, mask)[0]\<close>: the mean of the entries of \<open>src\<close> where the mask is not
  zero, and 0 when the mask is zero everywhere.
\<close>

definition cv_mean :: "real list \<Rightarrow> nat list \<Rightarrow> real" where
  "cv_mean src msk =
     (let sel = map fst (filter (\<lambda>(v, m). m \<noteq> 0) (zip src msk))
      in if sel = [] then 0 else sum_list sel / real (length sel))"

text \<open>
  \<^verbatim>\<open>cv::threshold(..., thresh, 1.0, THRESH_BINARY)\<close> followed by
  \<^verbatim>\<open>convertTo(CV_8UC1, 255)\<close>: 255 where the entry is greater than \<open>thresh\<close>, else 0.
\<close>

definition threshold_binary :: "real \<Rightarrow> real list \<Rightarrow> nat list" where
  "threshold_binary thresh vs = map (\<lambda>v. if v > thresh then 255 else 0) vs"

text \<open>
  \<^verbatim>\<open>cv::RotatedRect\<close>, as far as the sources read it: \<^verbatim>\<open>size.width\<close>, \<^verbatim>\<open>size.height\<close>
  and the four corners that \<^verbatim>\<open>points()\<close> writes.
\<close>

record RotatedRect =
  size_width :: real
  size_height :: real
  vertices :: "point \<times> point \<times> point \<times> point"

type_synonym contour = "(int \<times> int) list"

text \<open>
  The parameters:
  \<^item> \<open>findContours\<close>: \<^verbatim>\<open>cv::findContours(binary, ..., RETR_LIST, CHAIN_APPROX_SIMPLE)\<close>;
  \<^item> \<open>minAreaRect\<close>: \<^verbatim>\<open>cv::minAreaRect\<close>;
  \<^item> \<open>drawContours\<close>: the \<open>height \<times> width\<close> mask that is 255 inside the contour and 0
    elsewhere (\<^verbatim>\<open>cv::Mat::zeros\<close> and \<^verbatim>\<open>cv::drawContours(..., cv::FILLED)\<close>);
  \<^item> \<open>warpPerspective\<close>: the pixels that \<^verbatim>\<open>cv::getPerspectiveTransform\<close> and
    \<^verbatim>\<open>cv::warpPerspective\<close> give for the image, the four source corners and the
    destination width and height, or the exception they throw;
  \<^item> \<open>rotate_90_clockwise\<close>: the pixels of \<^verbatim>\<open>cv::rotate(..., ROTATE_90_CLOCKWISE)\<close>.
\<close>

record 'p opencv =
  findContours :: "nat Mat \<Rightarrow> contour list"
  minAreaRect :: "contour \<Rightarrow> RotatedRect"
  drawContours :: "nat \<Rightarrow> nat \<Rightarrow> contour \<Rightarrow> nat list"
  warpPerspective :: "'p Mat \<Rightarrow> point list \<Rightarrow> real \<times> real \<Rightarrow> fault + 'p list"
  rotate_90_clockwise :: "'p Mat \<Rightarrow> 'p list"

section \<open>\<^verbatim>\<open>std::sort\<close>\<close>

text \<open>
  \<^verbatim>\<open>std::sort\<close> with a comparator, as libstdc++ runs it on a range of at most 16
  elements, where it is its insertion sort: each element in turn, when it compares less
  than the first element, goes to the front, and otherwise moves left past the elements
  it is less than. The sorted prefix is held in reverse, its last element first, so the
  first element of the range is the last of the list. The comparator of the boxes (a
  tolerance of 10 pixels) is not a strict weak ordering, and the C++ standard then
  leaves the order open: longer ranges and other standard libraries may order such
  boxes differently. The theorems below use of the sort only that it keeps the elements.
\<close>

fun linear_insert :: "('a \<Rightarrow> 'a \<Rightarrow> bool) \<Rightarrow> 'a \<Rightarrow> 'a list \<Rightarrow> 'a list" where
  "linear_insert lt x [] = [x]"
| "linear_insert lt x (y # ys) =
     (if lt x y then y # linear_insert lt x ys else x # y # ys)"

definition insertion_step :: "('a \<Rightarrow> 'a \<Rightarrow> bool) \<Rightarrow> 'a \<Rightarrow> 'a list \<Rightarrow> 'a list" where
  "insertion_step lt x sorted_rev =
     (if sorted_rev \<noteq> [] \<and> lt x (last sorted_rev) then sorted_rev @ [x]
      else linear_insert lt x sorted_rev)"

definition std_sort :: "('a \<Rightarrow> 'a \<Rightarrow> bool) \<Rightarrow> 'a list \<Rightarrow> 'a list" where
  "std_sort lt xs = rev (fold (insertion_step lt) xs [])"

section \<open>DB postprocessing (ocr_engine.cpp, \<^verbatim>\<open>OcrEngine::DBPostProcess\<close>)\<close>

text \<open>Lines 290-291: \<^verbatim>\<open>cv::exp(-prob_map, prob_map); prob_map = 1.0 / (1.0 + prob_map)\<close>.\<close>

definition sigmoid :: "real \<Rightarrow> real" where
  "sigmoid v = 1 / (1 + exp (- v))"

text \<open>
  Lines 280-295: the probability map, after the sigmoid when the values look like logits.
  Line 288 compares in \<^verbatim>\<open>double\<close>: \<^verbatim>\<open>min_val < -0.1 || max_val > 1.1\<close>, with the values
  of the two \<^verbatim>\<open>double\<close> literals.
\<close>

definition looks_like_logits :: "real list \<Rightarrow> bool" where
  "looks_like_logits vs =
     (case minMaxLoc vs of (min_val, max_val) \<Rightarrow>
        min_val < - (3602879701896397 / 36028797018963968)
        \<or> max_val > 2476979795053773 / 2251799813685248)"

definition prob_map :: "tensor \<Rightarrow> nat \<Rightarrow> nat \<Rightarrow> real list" where
  "prob_map output_data height width =
     (let vs = map output_data [0..<height * width]
      in if looks_like_logits vs then map sigmoid vs else vs)"

text \<open>Lines 355-365: a corner, scaled back and clamped.\<close>

definition scale_back :: "real \<Rightarrow> real \<Rightarrow> nat \<Rightarrow> nat \<Rightarrow> point \<Rightarrow> point" where
  "scale_back scale_x scale_y orig_width orig_height v =
     (clamp_coord (fst v / scale_x) orig_width, clamp_coord (snd v / scale_y) orig_height)"

text \<open>Lines 367-379: sort the four points by \<open>y\<close>, then put each pair in order.\<close>

definition order_points :: "point list \<Rightarrow> point list" where
  "order_points ps =
     (let s = std_sort (\<lambda>a b. snd a < snd b) ps;
          s1 = (if fst (s ! 0) > fst (s ! 1) then s[0 := s ! 1, 1 := s ! 0] else s)
      in if fst (s1 ! 2) < fst (s1 ! 3) then s1[2 := s1 ! 3, 3 := s1 ! 2] else s1)"

text \<open>
  Lines 315-382, the body of the loop over the contours: \<open>None\<close> when the contour is
  skipped, the box that is pushed otherwise. The expansion computed at lines 346-349 is
  never used.
\<close>

definition contour_box :: "'p opencv \<Rightarrow> real list \<Rightarrow> nat \<Rightarrow> nat \<Rightarrow> real \<Rightarrow> real \<Rightarrow> nat \<Rightarrow> nat \<Rightarrow> real \<Rightarrow> contour \<Rightarrow> TextBox option" where
  "contour_box cv pm height width scale_x scale_y orig_width orig_height box_threshold c =
     (if length c < 4 then None
      else let rect = minAreaRect cv c;
               msk = drawContours cv height width c;
               mean_score = cv_mean pm msk
           in if mean_score < box_threshold then None
              else if min (size_width rect) (size_height rect) < 3 then None
              else (case vertices rect of (v0, v1, v2, v3) \<Rightarrow>
                Some \<lparr>score = mean_score,
                      points = order_points
                        (map (scale_back scale_x scale_y orig_width orig_height) [v0, v1, v2, v3])\<rparr>))"

text \<open>Lines 385-392: the comparator of the final sort.\<close>

definition box_less :: "TextBox \<Rightarrow> TextBox \<Rightarrow> bool" where
  "box_less a b =
     (let a_y = (snd (points a ! 0) + snd (points a ! 1)) / 2;
          b_y = (snd (points b ! 0) + snd (points b ! 1)) / 2
      in if \<bar>a_y - b_y\<bar> > 10 then a_y < b_y
         else fst (points a ! 0) < fst (points b ! 0))"

definition DBPostProcess :: "'p opencv \<Rightarrow> tensor \<Rightarrow> nat \<Rightarrow> nat \<Rightarrow> real \<Rightarrow> real \<Rightarrow> nat \<Rightarrow> nat \<Rightarrow> real \<Rightarrow> real \<Rightarrow> TextBox list" where
  "DBPostProcess cv output_data height width scale_x scale_y orig_width orig_height threshold box_threshold =
     (let pm = prob_map output_data height width;
          binary = \<lparr>rows = height, cols = width, pixels = threshold_binary threshold pm\<rparr>;
          contours = findContours cv binary
      in std_sort box_less
           (List.map_filter
              (contour_box cv pm height width scale_x scale_y orig_width orig_height box_threshold)
              contours))"

section \<open>Cropping a text region (\<^verbatim>\<open>OcrEngine::CropTextRegion\<close>)\<close>

text \<open>
  Lines 502-510 and again lines 761-768: minimum and maximum of the points'
  coordinates, as \<open>(min_x, max_x, min_y, max_y)\<close>, starting from \<^verbatim>\<open>points[0]\<close>.
\<close>

definition bounding :: "point list \<Rightarrow> real \<times> real \<times> real \<times> real" where
  "bounding ps =
     fold (\<lambda>pt (min_x, max_x, min_y, max_y).
             (min min_x (fst pt), max max_x (fst pt), min min_y (snd pt), max max_y (snd pt)))
       ps (fst (ps ! 0), fst (ps ! 0), snd (ps ! 0), snd (ps ! 0))"

text \<open>Lines 522-525: the distance between two corners.\<close>

definition distance :: "point \<Rightarrow> point \<Rightarrow> real" where
  "distance a b = sqrt ((fst a - fst b)\<^sup>2 + (snd a - snd b)\<^sup>2)"

definition CropTextRegion :: "'p opencv \<Rightarrow> 'p Mat \<Rightarrow> TextBox \<Rightarrow> fault + 'p Mat" where
  "CropTextRegion cv img box =
     (if length (points box) \<noteq> 4 then Inr Mat_default
      else case bounding (points box) of (min_x, max_x, min_y, max_y) \<Rightarrow>
        (let bx1 = static_cast_int (max 0 min_x);
             by1 = static_cast_int (max 0 min_y);
             bx2 = static_cast_int (min (real (cols img)) max_x);
             by2 = static_cast_int (min (real (rows img)) max_y)
         in if bx2 \<le> bx1 \<or> by2 \<le> by1 then Inr Mat_default
            else let width0 = distance (points box ! 1) (points box ! 0);
                     height0 = distance (points box ! 3) (points box ! 0);
                     width = (if width0 < 1 then 1 else width0);
                     height = (if height0 < 1 then 1 else height0)
                 in case warpPerspective cv img (points box) (width, height) of
                      Inl e \<Rightarrow> Inl e
                    | Inr px \<Rightarrow>
                        (let cropped = \<lparr>rows = nat (static_cast_int height),
                                        cols = nat (static_cast_int width), pixels = px\<rparr>
                         in if real (rows cropped) > real (cols cropped) * 1.5
                            then Inr \<lparr>rows = cols cropped, cols = rows cropped,
                                      pixels = rotate_90_clockwise cv cropped\<rparr>
                            else Inr cropped)))"

section \<open>The OCR engine (\<^verbatim>\<open>OcrEngine\<close>)\<close>

text \<open>
  The two ONNX sessions are parameters, as for the layout model: for an image, the
  detection session gives the height, the width and the data of its output map, the
  recognition session the sequence length, the vocabulary size and the data of its
  output; \<open>None\<close> stands for an exception thrown by preprocessing or inference, which
  \<^verbatim>\<open>DetectText\<close> and \<^verbatim>\<open>RecognizeRegion\<close> catch.
\<close>

text \<open>
  The members \<^verbatim>\<open>initialized_\<close>, \<^verbatim>\<open>det_session_\<close>, \<^verbatim>\<open>rec_session_\<close> and
  \<^verbatim>\<open>dictionary_\<close> lose their final underscore.
\<close>

record 'p OcrEngine =
  initialized :: bool
  det_session :: "('p Mat \<Rightarrow> (nat \<times> nat \<times> tensor) option) option"
  rec_session :: "('p Mat \<Rightarrow> (nat \<times> nat \<times> tensor) option) option"
  dictionary :: "string list"

text \<open>Lines 188-206 of \<^verbatim>\<open>PreprocessForDetection\<close>: the two scale factors.\<close>

definition DET_MAX_SIDE :: nat where
  "DET_MAX_SIDE = 960"

definition DET_LIMIT_SIDE :: nat where
  "DET_LIMIT_SIDE = 32"

definition PreprocessForDetection_scale :: "'p Mat \<Rightarrow> real \<times> real" where
  "PreprocessForDetection_scale img =
     (let orig_h = rows img; orig_w = cols img;
          max_side = max orig_h orig_w;
          ratio = (if max_side > DET_MAX_SIDE then real DET_MAX_SIDE / real max_side else 1);
          new_h0 = nat (static_cast_int (real orig_h * ratio));
          new_w0 = nat (static_cast_int (real orig_w * ratio));
          new_h = ((new_h0 + DET_LIMIT_SIDE - 1) div DET_LIMIT_SIDE) * DET_LIMIT_SIDE;
          new_w = ((new_w0 + DET_LIMIT_SIDE - 1) div DET_LIMIT_SIDE) * DET_LIMIT_SIDE
      in (real new_w / real orig_w, real new_h / real orig_h))"

text \<open>
  Lines 559-633. The box threshold is the constant \<^verbatim>\<open>0.3f\<close> of line 622. An image so narrow that
  the resized width or height is 0 has a scale factor of 0; \<^verbatim>\<open>cv::resize\<close> then throws
  before inference, which is the \<open>None\<close> of the session, so no division by that scale
  factor takes place.
\<close>

definition DetectText :: "'p opencv \<Rightarrow> 'p OcrEngine \<Rightarrow> 'p Mat \<Rightarrow> real \<Rightarrow> TextBox list" where
  "DetectText cv eng img threshold =
     (case (if initialized eng then det_session eng else None) of
        None \<Rightarrow> []
      | Some det_run \<Rightarrow>
          if Mat_empty img then []
          else (case PreprocessForDetection_scale img of (scale_x, scale_y) \<Rightarrow>
                 (case det_run img of
                    None \<Rightarrow> []
                  | Some (out_h, out_w, output_data) \<Rightarrow>
                      DBPostProcess cv output_data out_h out_w scale_x scale_y
                        (cols img) (rows img) threshold (5033165 / 16777216))))"

text \<open>Lines 635-698.\<close>

definition RecognizeRegion :: "'p OcrEngine \<Rightarrow> 'p Mat \<Rightarrow> fault + string \<times> real" where
  "RecognizeRegion eng region =
     (case (if initialized eng then rec_session eng else None) of
        None \<Rightarrow> Inr ([], 0)
      | Some rec_run \<Rightarrow>
          if Mat_empty region then Inr ([], 0)
          else (case rec_run region of
                  None \<Rightarrow> Inr ([], 0)
                | Some (seq_len, vocab_size, output_data) \<Rightarrow>
                    CTCDecode (dictionary eng) output_data seq_len vocab_size))"

text \<open>
  Lines 729-780, the body of the loop over the boxes: a fault, \<open>None\<close> when the box is
  skipped, or the line that is pushed.
\<close>

definition recognize_box :: "'p opencv \<Rightarrow> 'p OcrEngine \<Rightarrow> 'p Mat \<Rightarrow> real \<Rightarrow> TextBox \<Rightarrow> fault + TextLineResult option" where
  "recognize_box cv eng img rec_threshold box =
     (case CropTextRegion cv img box of
        Inl e \<Rightarrow> Inl e
      | Inr region \<Rightarrow>
          if Mat_empty region then Inr None
          else (case RecognizeRegion eng region of
                  Inl e \<Rightarrow> Inl e
                | Inr (txt, sc) \<Rightarrow>
                    if txt = [] then Inr None
                    else if sc < rec_threshold then Inr None
                    else (case bounding (points box) of (min_x, max_x, min_y, max_y) \<Rightarrow>
                      Inr (Some \<lparr>score = sc, x1 = min_x, y1 = min_y, x2 = max_x, y2 = max_y,
                                 line_text = txt\<rparr>))))"

text \<open>The loop: the boxes in their order, until a fault leaves the function.\<close>

fun recognize_boxes :: "'p opencv \<Rightarrow> 'p OcrEngine \<Rightarrow> 'p Mat \<Rightarrow> real \<Rightarrow> TextBox list \<Rightarrow> fault + TextLineResult list" where
  "recognize_boxes cv eng img rec_threshold [] = Inr []"
| "recognize_boxes cv eng img rec_threshold (box # boxes) =
     (case recognize_box cv eng img rec_threshold box of
        Inl e \<Rightarrow> Inl e
      | Inr r \<Rightarrow>
          (case recognize_boxes cv eng img rec_threshold boxes of
             Inl e \<Rightarrow> Inl e
           | Inr rs \<Rightarrow> Inr (case r of None \<Rightarrow> rs | Some l \<Rightarrow> l # rs)))"

text \<open>Lines 700-791.\<close>

definition RecognizeText :: "'p opencv \<Rightarrow> 'p OcrEngine \<Rightarrow> 'p Mat \<Rightarrow> real \<Rightarrow> real \<Rightarrow> fault + TextLineResult list" where
  "RecognizeText cv eng img det_threshold rec_threshold =
     (if \<not> initialized eng then Inr []
      else if Mat_empty img then Inr []
      else let boxes = DetectText cv eng img det_threshold
           in if boxes = [] then Inr []
              else recognize_boxes cv eng img rec_threshold boxes)"

section \<open>Layout detection: properties\<close>

lemma clamp_coord_bounds: "0 \<le> clamp_coord v b \<and> clamp_coord v b \<le> real b"
  by (simp add: clamp_coord_def)

lemma clamp_coord_mono: "v \<le> w \<Longrightarrow> clamp_coord v b \<le> clamp_coord w b"
  by (auto simp: clamp_coord_def)

lemma set_map_filter_iff: "y \<in> set (List.map_filter f xs) \<longleftrightarrow> (\<exists>x\<in>set xs. f x = Some y)"
  by (force simp: List.map_filter_def)

lemma decode_rows_mem:
  "d \<in> set (decode_rows l sf w h t n data) \<longleftrightarrow>
     (\<exists>i<n. decode_row l sf w h t data i = Some d)"
  by (auto simp: decode_rows_def set_map_filter_iff)

lemma decode_row_threshold_mono:
  assumes "t1 \<le> t2" "decode_row l sf w h t2 data i = Some d"
  shows "decode_row l sf w h t1 data i = Some d"
  using assms by (auto simp: decode_row_def Let_def split: if_splits prod.splits)

lemma decode_row_fields:
  assumes "decode_row l sf w h t data i = Some d"
  shows "score d = data (i * 6 + 1)" and "t \<le> score d"
    and "(x1 d, y1 d, x2 d, y2 d) =
           (case restore_coords l sf data i of
              (a, b, c, e) \<Rightarrow> (clamp_coord a w, clamp_coord b h, clamp_coord c w, clamp_coord e h))"
    and "0 \<le> class_id d" and "class_id d < 23"
  using assms by (auto simp: decode_row_def Let_def DOC_CLASSES_def split: if_splits prod.splits)

lemma map_filter_if:
  "List.map_filter (\<lambda>x. if P x then Some (f x) else None) xs = map f (filter P xs)"
  by (simp add: map_filter_map_filter)

lemma decode_rows_coords:
  "map (\<lambda>d. (x1 d, y1 d, x2 d, y2 d)) (decode_rows l sf w h t n data)
     = map (\<lambda>i. (clamp_coord (data (i * 6 + 2) * fst (inv_scale l sf)) w,
                   clamp_coord (data (i * 6 + 3) * snd (inv_scale l sf)) h,
                   clamp_coord (data (i * 6 + 4) * fst (inv_scale l sf)) w,
                   clamp_coord (data (i * 6 + 5) * snd (inv_scale l sf)) h))
         (filter (\<lambda>i. t \<le> data (i * 6 + 1) \<and> 0 \<le> static_cast_int (data (i * 6))
                       \<and> static_cast_int (data (i * 6)) < 23) [0..<n])"
proof -
  have "decode_row l sf w h t data
          = (\<lambda>i. if t \<le> data (i * 6 + 1) \<and> 0 \<le> static_cast_int (data (i * 6))
                       \<and> static_cast_int (data (i * 6)) < 23
                   then Some \<lparr>score = data (i * 6 + 1),
                         x1 = clamp_coord (data (i * 6 + 2) * fst (inv_scale l sf)) w,
                         y1 = clamp_coord (data (i * 6 + 3) * snd (inv_scale l sf)) h,
                         x2 = clamp_coord (data (i * 6 + 4) * fst (inv_scale l sf)) w,
                         y2 = clamp_coord (data (i * 6 + 5) * snd (inv_scale l sf)) h,
                         class_id = static_cast_int (data (i * 6)),
                         class_name = DOC_CLASSES ! nat (static_cast_int (data (i * 6)))\<rparr>
                   else None)"
    by (rule ext) (simp add: decode_row_def restore_coords_def Let_def DOC_CLASSES_def)
  then show ?thesis
    by (simp add: decode_rows_def map_filter_if comp_def)
qed

text \<open>
  C7. On the same image and the same output tensor, \<^verbatim>\<open>detectDocLayout\<close> with a model of 2
  inputs (the M path) emits, for every row that passes the score and class filters, the
  clamps of the row's coordinates divided by the scale factor's components, which are
  640 over the image's width and 640 over its height; with a model of 3 inputs (the L
  path) it emits the clamps of the row's coordinates as they are. The rows that pass are
  the same on both paths. On a 320 by 320 image the scale factor is (2, 2), and the M path
  clamps half of each coordinate that the L path clamps. Before clamping, the coordinates
  of row \<open>i\<close> are those of \<open>restore_coords\<close>.
\<close>

theorem layout_M_vs_L_scaling:
  assumes "\<not> Mat_empty img"
    and "num_inputs sM = 2" and "run sM img = Some (n, output_data)"
    and "num_inputs sL = 3" and "run sL img = Some (n, output_data)"
  shows "map (\<lambda>d. (x1 d, y1 d, x2 d, y2 d)) (detectDocLayout (Some sM) img conf_threshold)
           = map (\<lambda>i. (clamp_coord (output_data (i * 6 + 2) / (640 / real (cols img))) (cols img),
                         clamp_coord (output_data (i * 6 + 3) / (640 / real (rows img))) (rows img),
                         clamp_coord (output_data (i * 6 + 4) / (640 / real (cols img))) (cols img),
                         clamp_coord (output_data (i * 6 + 5) / (640 / real (rows img))) (rows img)))
               (filter (\<lambda>i. conf_threshold \<le> output_data (i * 6 + 1)
                          \<and> 0 \<le> static_cast_int (output_data (i * 6))
                          \<and> static_cast_int (output_data (i * 6)) < 23) [0..<n])
       \<and> map (\<lambda>d. (x1 d, y1 d, x2 d, y2 d)) (detectDocLayout (Some sL) img conf_threshold)
           = map (\<lambda>i. (clamp_coord (output_data (i * 6 + 2)) (cols img),
                         clamp_coord (output_data (i * 6 + 3)) (rows img),
                         clamp_coord (output_data (i * 6 + 4)) (cols img),
                         clamp_coord (output_data (i * 6 + 5)) (rows img)))
               (filter (\<lambda>i. conf_threshold \<le> output_data (i * 6 + 1)
                          \<and> 0 \<le> static_cast_int (output_data (i * 6))
                          \<and> static_cast_int (output_data (i * 6)) < 23) [0..<n])
       \<and> (cols img = 320 \<and> rows img = 320 \<longrightarrow>
            preprocessImage_scale img 640 640 = (2, 2)
            \<and> map (\<lambda>d. (x1 d, y1 d, x2 d, y2 d)) (detectDocLayout (Some sM) img conf_threshold)
                = map (\<lambda>i. (clamp_coord (output_data (i * 6 + 2) / 2) 320,
                              clamp_coord (output_data (i * 6 + 3) / 2) 320,
                              clamp_coord (output_data (i * 6 + 4) / 2) 320,
                              clamp_coord (output_data (i * 6 + 5) / 2) 320))
                    (filter (\<lambda>i. conf_threshold \<le> output_data (i * 6 + 1)
                               \<and> 0 \<le> static_cast_int (output_data (i * 6))
                               \<and> static_cast_int (output_data (i * 6)) < 23) [0..<n]))
       \<and> restore_coords (is_l_model (num_inputs sM)) (preprocessImage_scale img 640 640) output_data i
           = (output_data (i * 6 + 2) / (640 / real (cols img)),
              output_data (i * 6 + 3) / (640 / real (rows img)),
              output_data (i * 6 + 4) / (640 / real (cols img)),
              output_data (i * 6 + 5) / (640 / real (rows img)))
       \<and> restore_coords (is_l_model (num_inputs sL)) (preprocessImage_scale img 640 640) output_data i
           = (output_data (i * 6 + 2), output_data (i * 6 + 3),
              output_data (i * 6 + 4), output_data (i * 6 + 5))"
proof -
  have M: "detectDocLayout (Some sM) img conf_threshold
             = decode_rows False (640 / real (cols img), 640 / real (rows img)) (cols img) (rows img)
                 conf_threshold n output_data"
    using assms(1,2,3)
    by (simp add: detectDocLayout_def preprocessImage_scale_def is_l_model_def)
  have L: "detectDocLayout (Some sL) img conf_threshold
             = decode_rows True (640 / real (cols img), 640 / real (rows img)) (cols img) (rows img)
                 conf_threshold n output_data"
    using assms(1,4,5)
    by (simp add: detectDocLayout_def preprocessImage_scale_def is_l_model_def)
  have 1: "map (\<lambda>d. (x1 d, y1 d, x2 d, y2 d)) (detectDocLayout (Some sM) img conf_threshold)
           = map (\<lambda>i. (clamp_coord (output_data (i * 6 + 2) / (640 / real (cols img))) (cols img),
                         clamp_coord (output_data (i * 6 + 3) / (640 / real (rows img))) (rows img),
                         clamp_coord (output_data (i * 6 + 4) / (640 / real (cols img))) (cols img),
                         clamp_coord (output_data (i * 6 + 5) / (640 / real (rows img))) (rows img)))
               (filter (\<lambda>i. conf_threshold \<le> output_data (i * 6 + 1)
                          \<and> 0 \<le> static_cast_int (output_data (i * 6))
                          \<and> static_cast_int (output_data (i * 6)) < 23) [0..<n])"
    unfolding M decode_rows_coords by (simp add: inv_scale_def)
  have 2: "map (\<lambda>d. (x1 d, y1 d, x2 d, y2 d)) (detectDocLayout (Some sL) img conf_threshold)
           = map (\<lambda>i. (clamp_coord (output_data (i * 6 + 2)) (cols img),
                         clamp_coord (output_data (i * 6 + 3)) (rows img),
                         clamp_coord (output_data (i * 6 + 4)) (cols img),
                         clamp_coord (output_data (i * 6 + 5)) (rows img)))
               (filter (\<lambda>i. conf_threshold \<le> output_data (i * 6 + 1)
                          \<and> 0 \<le> static_cast_int (output_data (i * 6))
                          \<and> static_cast_int (output_data (i * 6)) < 23) [0..<n])"
    unfolding L decode_rows_coords by (simp add: inv_scale_def)
  have 3: "cols img = 320 \<and> rows img = 320 \<longrightarrow>
            preprocessImage_scale img 640 640 = (2, 2)
            \<and> map (\<lambda>d. (x1 d, y1 d, x2 d, y2 d)) (detectDocLayout (Some sM) img conf_threshold)
                = map (\<lambda>i. (clamp_coord (output_data (i * 6 + 2) / 2) 320,
                              clamp_coord (output_data (i * 6 + 3) / 2) 320,
                              clamp_coord (output_data (i * 6 + 4) / 2) 320,
                              clamp_coord (output_data (i * 6 + 5) / 2) 320))
                    (filter (\<lambda>i. conf_threshold \<le> output_data (i * 6 + 1)
                               \<and> 0 \<le> static_cast_int (output_data (i * 6))
                               \<and> static_cast_int (output_data (i * 6)) < 23) [0..<n])"
    unfolding 1 by (simp add: preprocessImage_scale_def)
  have 4: "restore_coords (is_l_model (num_inputs sM)) (preprocessImage_scale img 640 640) output_data i
           = (output_data (i * 6 + 2) / (640 / real (cols img)),
              output_data (i * 6 + 3) / (640 / real (rows img)),
              output_data (i * 6 + 4) / (640 / real (cols img)),
              output_data (i * 6 + 5) / (640 / real (rows img)))"
    using assms(2)
    by (simp add: restore_coords_def inv_scale_def is_l_model_def preprocessImage_scale_def)
  have 5: "restore_coords (is_l_model (num_inputs sL)) (preprocessImage_scale img 640 640) output_data i
           = (output_data (i * 6 + 2), output_data (i * 6 + 3),
              output_data (i * 6 + 4), output_data (i * 6 + 5))"
    using assms(4)
    by (simp add: restore_coords_def inv_scale_def is_l_model_def)
  from 1 2 3 4 5 show ?thesis by blast
qed

theorem layout_M_vs_L_scaling_witness:
  "\<not> Mat_empty \<lparr>rows = 320, cols = 320, pixels = [()]\<rparr>
   \<and> preprocessImage_scale \<lparr>rows = 320, cols = 320, pixels = [()]\<rparr> 640 640 = (2, 2)
   \<and> map (\<lambda>d. (x1 d, y1 d, x2 d, y2 d))
       (detectDocLayout
          (Some \<lparr>num_inputs = 2,
                 run = (\<lambda>m. Some (1, nth [0, 9 / 10, 100, 40, 300, 200]))\<rparr>)
          \<lparr>rows = 320, cols = 320, pixels = [()]\<rparr> (1 / 2))
       = [(50, 20, 150, 100)]
   \<and> map (\<lambda>d. (x1 d, y1 d, x2 d, y2 d))
       (detectDocLayout
          (Some \<lparr>num_inputs = 3,
                 run = (\<lambda>m. Some (1, nth [0, 9 / 10, 100, 40, 300, 200]))\<rparr>)
          \<lparr>rows = 320, cols = 320, pixels = [()]\<rparr> (1 / 2))
       = [(100, 40, 300, 200)]"
  using layout_M_vs_L_scaling
    [where img = "\<lparr>rows = 320, cols = 320, pixels = [()]\<rparr>"
       and sM = "\<lparr>num_inputs = 2, run = (\<lambda>m. Some (1, nth [0, 9 / 10, 100, 40, 300, 200]))\<rparr>"
       and sL = "\<lparr>num_inputs = 3, run = (\<lambda>m. Some (1, nth [0, 9 / 10, 100, 40, 300, 200]))\<rparr>"
       and n = 1 and output_data = "nth [0, 9 / 10, 100, 40, 300, 200]"
       and conf_threshold = "1 / 2" and i = 0]
  by (simp add: Mat_empty_def static_cast_int_def clamp_coord_def)

section \<open>CTC decoding: properties\<close>

lemma ctc_fold_spec:
  fixes idx :: "nat \<Rightarrow> nat" and val :: "nat \<Rightarrow> real" and dict :: "string list"
  defines "st n \<equiv> fold (\<lambda>t. ctc_step dict (idx t, val t)) [0..<n] ctc_init"
  shows "result (st n) = concat (map (\<lambda>t. dict ! idx t) (filter (spec_emits dict idx) [0..<n]))
       \<and> total_score (st n) = sum_list (map val (filter (spec_emits dict idx) [0..<n]))
       \<and> char_count (st n) = length (filter (spec_emits dict idx) [0..<n])
       \<and> prev_idx (st n) = (if n = 0 then - 1 else int (idx (n - 1)))"
proof (induction n)
  case 0
  show ?case by (simp add: st_def ctc_init_def)
next
  case (Suc n)
  have step: "st (Suc n) = ctc_step dict (idx n, val n) (st n)"
    by (simp add: st_def)
  show ?case
  proof (cases "spec_emits dict idx n")
    case True
    with Suc show ?thesis
      unfolding step by (cases n) (auto simp: ctc_step_def spec_emits_def)
  next
    case False
    with Suc show ?thesis
      unfolding step by (cases n) (auto simp: ctc_step_def spec_emits_def)
  qed
qed

lemma ctc_loop_eq:
  "ctc_loop dict data seq_len V =
     fold (\<lambda>t. ctc_step dict (max_idx_at data V t, max_val_at data V t)) [0..<seq_len] ctc_init"
  by (simp add: ctc_loop_def max_idx_at_def max_val_at_def)

lemma CTCDecode_spec:
  assumes "0 < V \<or> seq_len = 0"
  shows "CTCDecode dict data seq_len V =
           Inr (concat (map (\<lambda>t. dict ! max_idx_at data V t)
                          (filter (spec_emits dict (max_idx_at data V)) [0..<seq_len])),
                spec_mean (map (max_val_at data V)
                          (filter (spec_emits dict (max_idx_at data V)) [0..<seq_len])))"
  using assms ctc_fold_spec [of dict "max_idx_at data V" "max_val_at data V" seq_len]
  by (auto simp: CTCDecode_def ctc_loop_eq Let_def spec_mean_def)

lemma max_idx_at_no_vocab: "max_idx_at data 0 t = 0"
  by (simp add: max_idx_at_def argmax_def)

lemma ctc_step_rule:
  "result (ctc_step dict (i, v) st) =
     (if i \<noteq> 0 \<and> int i \<noteq> prev_idx st \<and> i < length dict then result st @ dict ! i else result st)
   \<and> char_count (ctc_step dict (i, v) st) =
     (if i \<noteq> 0 \<and> int i \<noteq> prev_idx st \<and> i < length dict then char_count st + 1 else char_count st)
   \<and> prev_idx (ctc_step dict (i, v) st) = int i"
  by (simp add: ctc_step_def)

lemma ctc_example_text:
  assumes idx: "map idx [0..<n] = [0, 5, 5, 0, 5::nat]"
    and dict: "5 < length dict" "dict ! 5 = ''A''"
  shows "concat (map (\<lambda>t. dict ! idx t) (filter (spec_emits dict idx) [0..<n])) = ''AA''"
proof -
  have "length (map idx [0..<n]) = 5" by (simp add: idx)
  then have n: "n = 5" by simp
  have upt5: "[0..<5] = [0, 1, 2, 3, 4::nat]" by (simp add: upt_conv_Cons)
  from idx have vals: "idx 0 = 0" "idx 1 = 5" "idx 2 = 5" "idx 3 = 0" "idx 4 = 5"
    unfolding n upt5 by simp_all
  show ?thesis
    unfolding n upt5 using vals dict by (simp add: spec_emits_def)
qed

text \<open>
  C5. A timestep's token is appended exactly when its argmax index is not 0, differs
  from the argmax index of the timestep just before (blank or not) and is an index of
  the dictionary; the previous index becomes the argmax index in every case. So the
  decoded string is the concatenation of the tokens of the timesteps that emit in the
  specification's sense. When the argmax sequence is 0, 5, 5, 0, 5 and token 5 is "A",
  the decoded string is "AA".
\<close>

theorem ctc_emission_rule:
  "(\<forall>i v st. result (ctc_step dict (i, v) st) =
       (if i \<noteq> 0 \<and> int i \<noteq> prev_idx st \<and> i < length dict
        then result st @ dict ! i else result st)
       \<and> prev_idx (ctc_step dict (i, v) st) = int i)
   \<and> (0 < vocab_size \<longrightarrow>
       (\<exists>conf. CTCDecode dict data seq_len vocab_size =
          Inr (concat (map (\<lambda>t. dict ! max_idx_at data vocab_size t)
                 (filter (spec_emits dict (max_idx_at data vocab_size)) [0..<seq_len])), conf)))
   \<and> (map (max_idx_at data vocab_size) [0..<seq_len] = [0, 5, 5, 0, 5]
        \<and> 5 < length dict \<and> dict ! 5 = ''A'' \<longrightarrow>
       (\<exists>conf. CTCDecode dict data seq_len vocab_size = Inr (''AA'', conf)))"
proof (intro conjI allI impI)
  fix i v st
  show "result (ctc_step dict (i, v) st) =
       (if i \<noteq> 0 \<and> int i \<noteq> prev_idx st \<and> i < length dict
        then result st @ dict ! i else result st)"
    and "prev_idx (ctc_step dict (i, v) st) = int i"
    using ctc_step_rule [of dict i v st] by simp_all
next
  assume "0 < vocab_size"
  then show "\<exists>conf. CTCDecode dict data seq_len vocab_size =
          Inr (concat (map (\<lambda>t. dict ! max_idx_at data vocab_size t)
                 (filter (spec_emits dict (max_idx_at data vocab_size)) [0..<seq_len])), conf)"
    by (simp add: CTCDecode_spec)
next
  assume ex: "map (max_idx_at data vocab_size) [0..<seq_len] = [0, 5, 5, 0, 5]
        \<and> 5 < length dict \<and> dict ! 5 = ''A''"
  have "vocab_size \<noteq> 0"
  proof
    assume "vocab_size = 0"
    moreover have "max_idx_at data 0 = (\<lambda>t. 0)"
      by (rule ext) (simp add: max_idx_at_no_vocab)
    ultimately have "map (\<lambda>t. 0::nat) [0..<seq_len] = [0, 5, 5, 0, 5]"
      using ex by simp
    then have "(5::nat) \<in> set (map (\<lambda>t. 0::nat) [0..<seq_len])" by simp
    then show False by auto
  qed
  then have "0 < vocab_size" by simp
  with ex show "\<exists>conf. CTCDecode dict data seq_len vocab_size = Inr (''AA'', conf)"
    using ctc_example_text [of "max_idx_at data vocab_size" seq_len dict]
    by (simp add: CTCDecode_spec)
qed

theorem ctc_emission_rule_witness:
  "map (max_idx_at (nth [1,0,0,0,0,0, 0,0,0,0,0,1, 0,0,0,0,0,1, 1,0,0,0,0,0, 0,0,0,0,0,1]) 6) [0..<5]
     = [0, 5, 5, 0, 5]
   \<and> CTCDecode ['''', ''a'', ''b'', ''c'', ''d'', ''A'']
        (nth [1,0,0,0,0,0, 0,0,0,0,0,1, 0,0,0,0,0,1, 1,0,0,0,0,0, 0,0,0,0,0,1]) 5 6 = Inr (''AA'', 1)"
proof -
  let ?data = "nth [1,0,0,0,0,0, 0,0,0,0,0,1, 0,0,0,0,0,1, 1,0,0,0,0,0, 0,0,0,0,0,1::real]"
  let ?dict = "['''', ''a'', ''b'', ''c'', ''d'', ''A'']"
  have idx: "map (max_idx_at ?data 6) [0..<5] = [0, 5, 5, 0, 5]"
    by (simp add: max_idx_at_def argmax_def probs_def need_softmax_def first_min_def
          first_sum_def upt_conv_Cons)
  from ctc_emission_rule [of ?dict 6 ?data 5] idx
  obtain conf where "CTCDecode ?dict ?data 5 6 = Inr (''AA'', conf)"
    by auto
  moreover have "CTCDecode ?dict ?data 5 6 = Inr (''AA'', 1)"
    by (simp add: CTCDecode_def ctc_loop_def ctc_step_def ctc_init_def argmax_def probs_def
          need_softmax_def first_min_def first_sum_def upt_conv_Cons)
  ultimately show ?thesis using idx by simp
qed

text \<open>
  C6. The returned confidence is the arithmetic mean of the argmax probabilities of the
  timesteps that emit, and 0 when none emits; when the argmax of every timestep is the
  blank index 0, the result is the empty string with confidence 0, whatever the sequence
  length. (Without a vocabulary there is no argmax: a sequence of positive length then
  reads outside \<^verbatim>\<open>probs\<close>.)
\<close>

theorem ctc_confidence:
  assumes "0 < vocab_size \<or> seq_len = 0"
  shows "(\<exists>txt. CTCDecode dict data seq_len vocab_size =
            Inr (txt, spec_mean (map (max_val_at data vocab_size)
                   (filter (spec_emits dict (max_idx_at data vocab_size)) [0..<seq_len]))))
       \<and> ((\<forall>t<seq_len. max_idx_at data vocab_size t = 0) \<longrightarrow>
            CTCDecode dict data seq_len vocab_size = Inr ([], 0))"
proof (intro conjI impI)
  show "\<exists>txt. CTCDecode dict data seq_len vocab_size =
            Inr (txt, spec_mean (map (max_val_at data vocab_size)
                   (filter (spec_emits dict (max_idx_at data vocab_size)) [0..<seq_len])))"
    using assms by (simp add: CTCDecode_spec)
next
  assume blank: "\<forall>t<seq_len. max_idx_at data vocab_size t = 0"
  then have "filter (spec_emits dict (max_idx_at data vocab_size)) [0..<seq_len] = []"
    by (auto simp: filter_empty_conv spec_emits_def)
  then show "CTCDecode dict data seq_len vocab_size = Inr ([], 0)"
    using assms by (simp add: CTCDecode_spec spec_mean_def)
qed

theorem ctc_confidence_witness:
  "((0::nat) < 2 \<or> (3::nat) = 0)
   \<and> map (max_idx_at (nth [1, 0, 1, 0, 1, 0]) 2) [0..<3] = [0, 0, 0]
   \<and> CTCDecode ['''', ''x''] (nth [1, 0, 1, 0, 1, 0]) 3 2 = Inr ([], 0)
   \<and> CTCDecode ['''', ''x''] (nth [1 / 10, 9 / 10, 6 / 10, 4 / 10, 3 / 10, 7 / 10]) 3 2
       = Inr (''xx'', 8 / 10)"
proof -
  let ?blank = "nth [1, 0, 1, 0, 1, 0::real]"
  have idx: "\<forall>t<3. max_idx_at ?blank 2 t = 0"
  proof (intro allI impI)
    fix t :: nat assume "t < 3"
    then have "t = 0 \<or> t = 1 \<or> t = 2" by arith
    then show "max_idx_at ?blank 2 t = 0"
      by (auto simp: max_idx_at_def argmax_def probs_def need_softmax_def first_min_def
            first_sum_def upt_conv_Cons)
  qed
  then have idxs: "map (max_idx_at ?blank 2) [0..<3] = [0, 0, 0]"
    by (simp add: upt_conv_Cons)
  have "CTCDecode ['''', ''x''] ?blank 3 2 = Inr ([], 0)"
    using ctc_confidence [where vocab_size = 2 and seq_len = 3 and data = ?blank
        and dict = "['''', ''x'']"] idx by simp
  moreover have "CTCDecode ['''', ''x''] (nth [1 / 10, 9 / 10, 6 / 10, 4 / 10, 3 / 10, 7 / 10]) 3 2
       = Inr (''xx'', 8 / 10)"
    by (simp add: CTCDecode_def ctc_loop_def ctc_step_def ctc_init_def argmax_def probs_def
          need_softmax_def first_min_def first_sum_def upt_conv_Cons)
  ultimately show ?thesis using idxs by simp
qed

section \<open>Cropping and degenerate inputs: properties\<close>

lemma static_cast_int_nonneg: "0 \<le> f \<Longrightarrow> 0 \<le> static_cast_int f"
  by (simp add: static_cast_int_def)

lemma static_cast_int_nonpos: "f \<le> 0 \<Longrightarrow> static_cast_int f \<le> 0"
  by (auto simp: static_cast_int_def ceiling_le_iff)

lemma Mat_empty_default: "Mat_empty Mat_default"
  by (simp add: Mat_empty_def Mat_default_def)

lemma CropTextRegion_empty_image:
  assumes "Mat_empty img"
  shows "CropTextRegion cv img box = Inr Mat_default"
proof (cases "length (points box) = 4")
  case False
  then show ?thesis by (simp add: CropTextRegion_def)
next
  case True
  obtain min_x max_x min_y max_y where b: "bounding (points box) = (min_x, max_x, min_y, max_y)"
    by (cases "bounding (points box)") auto
  have x: "cols img = 0 \<Longrightarrow> static_cast_int (min (real (cols img)) max_x) \<le> static_cast_int (max 0 min_x)"
    using static_cast_int_nonpos [of "min 0 max_x"] static_cast_int_nonneg [of "max 0 min_x"]
    by simp
  have y: "rows img = 0 \<Longrightarrow> static_cast_int (min (real (rows img)) max_y) \<le> static_cast_int (max 0 min_y)"
    using static_cast_int_nonpos [of "min 0 max_y"] static_cast_int_nonneg [of "max 0 min_y"]
    by simp
  from assms x y have "static_cast_int (min (real (cols img)) max_x) \<le> static_cast_int (max 0 min_x)
     \<or> static_cast_int (min (real (rows img)) max_y) \<le> static_cast_int (max 0 min_y)"
    by (auto simp: Mat_empty_def)
  then show ?thesis
    using True b by (simp add: CropTextRegion_def Let_def)
qed

lemma CropTextRegion_shape:
  assumes "CropTextRegion cv img box = Inr crop"
  shows "real (rows crop) \<le> 1.5 * real (cols crop)"
  using assms
  by (auto simp: CropTextRegion_def Let_def Mat_default_def
      split: if_splits prod.splits sum.splits)

text \<open>
  C8. A crop that \<^verbatim>\<open>CropTextRegion\<close> returns and that is not empty is at most 1.5 times
  as high as it is wide: when the warped crop is higher than that, it is rotated, and
  its height and width change places.
\<close>

theorem crop_orientation:
  assumes "CropTextRegion cv img box = Inr crop" and "\<not> Mat_empty crop"
  shows "real (rows crop) \<le> 1.5 * real (cols crop)"
  using assms(1) by (rule CropTextRegion_shape)

text \<open>
  C9. Empty and degenerate inputs give an empty result and no fault. For an empty image,
  layout detection, text detection and the full OCR return no results and cropping
  returns the empty matrix. For a box that does not have four points (an empty point
  list among them), and for a box whose integer bounding rectangle has no positive
  width or height, cropping returns the empty matrix.
\<close>

theorem degenerate_input_gives_empty_result:
  "(Mat_empty img \<longrightarrow>
      detectDocLayout g_session img conf_threshold = []
      \<and> RecognizeText cv eng img det_threshold rec_threshold = Inr []
      \<and> DetectText cv eng img det_threshold = []
      \<and> CropTextRegion cv img box = Inr Mat_default)
   \<and> (length (points box) \<noteq> 4 \<longrightarrow> CropTextRegion cv img box = Inr Mat_default)
   \<and> (length (points box) = 4 \<and> bounding (points box) = (min_x, max_x, min_y, max_y)
       \<and> (static_cast_int (min (real (cols img)) max_x) \<le> static_cast_int (max 0 min_x)
          \<or> static_cast_int (min (real (rows img)) max_y) \<le> static_cast_int (max 0 min_y))
       \<longrightarrow> CropTextRegion cv img box = Inr Mat_default)
   \<and> Mat_empty (Mat_default :: 'p Mat)"
proof (intro conjI impI)
  assume e: "Mat_empty img"
  show "detectDocLayout g_session img conf_threshold = []"
    using e by (simp add: detectDocLayout_def)
  show "RecognizeText cv eng img det_threshold rec_threshold = Inr []"
    using e by (simp add: RecognizeText_def)
  show "DetectText cv eng img det_threshold = []"
    using e by (simp add: DetectText_def split: option.splits)
  show "CropTextRegion cv img box = Inr Mat_default"
    using e by (rule CropTextRegion_empty_image)
next
  assume "length (points box) \<noteq> 4"
  then show "CropTextRegion cv img box = Inr Mat_default"
    by (simp add: CropTextRegion_def)
next
  assume "length (points box) = 4 \<and> bounding (points box) = (min_x, max_x, min_y, max_y)
       \<and> (static_cast_int (min (real (cols img)) max_x) \<le> static_cast_int (max 0 min_x)
          \<or> static_cast_int (min (real (rows img)) max_y) \<le> static_cast_int (max 0 min_y))"
  then show "CropTextRegion cv img box = Inr Mat_default"
    by (auto simp: CropTextRegion_def Let_def)
next
  show "Mat_empty (Mat_default :: 'p Mat)"
    by (rule Mat_empty_default)
qed

theorem crop_orientation_witness:
  "CropTextRegion
      \<lparr>findContours = (\<lambda>b. []),
       minAreaRect = (\<lambda>c. \<lparr>size_width = 0, size_height = 0, vertices = ((0, 0), (0, 0), (0, 0), (0, 0))\<rparr>),
       drawContours = (\<lambda>h w c. []),
       warpPerspective = (\<lambda>m ps wh. Inr [()]),
       rotate_90_clockwise = (\<lambda>m. [()])\<rparr>
      \<lparr>rows = 10, cols = 10, pixels = [()]\<rparr>
      \<lparr>score = 1, points = [(0, 0), (2, 0), (2, 8), (0, 8)]\<rparr>
     = Inr \<lparr>rows = 2, cols = 8, pixels = [()]\<rparr>
   \<and> \<not> Mat_empty \<lparr>rows = 2, cols = 8, pixels = [()]\<rparr>
   \<and> real 2 \<le> 1.5 * real 8"
proof -
  let ?cv = "\<lparr>findContours = (\<lambda>b. []),
       minAreaRect = (\<lambda>c. \<lparr>size_width = 0, size_height = 0, vertices = ((0, 0), (0, 0), (0, 0), (0, 0))\<rparr>),
       drawContours = (\<lambda>h w c. []),
       warpPerspective = (\<lambda>m ps wh. Inr [()]),
       rotate_90_clockwise = (\<lambda>m. [()])\<rparr> :: unit opencv"
  let ?img = "\<lparr>rows = 10, cols = 10, pixels = [()]\<rparr>"
  let ?box = "\<lparr>score = 1, points = [(0, 0), (2, 0), (2, 8), (0, 8)]\<rparr>"
  let ?crop = "\<lparr>rows = 2, cols = 8, pixels = [()]\<rparr>"
  have s64: "sqrt 64 = 8"
    using real_sqrt_abs [of 8] by simp
  have c: "CropTextRegion ?cv ?img ?box = Inr ?crop"
    by (simp add: CropTextRegion_def bounding_def distance_def static_cast_int_def Let_def s64)
  have e: "\<not> Mat_empty ?crop"
    by (simp add: Mat_empty_def)
  from crop_orientation [OF c e] c e show ?thesis by simp
qed

theorem degenerate_input_gives_empty_result_witness:
  "Mat_empty \<lparr>rows = 0, cols = 0, pixels = ([] :: unit list)\<rparr>
   \<and> detectDocLayout None \<lparr>rows = 0, cols = 0, pixels = ([] :: unit list)\<rparr> (1 / 2) = []
   \<and> length (points \<lparr>score = 1, points = []\<rparr>) \<noteq> 4
   \<and> bounding [(3, 1), (3, 1), (3, 5), (3, 5)] = (3, 3, 1, 5)
   \<and> static_cast_int (min (real (10::nat)) 3) \<le> static_cast_int (max 0 3)
   \<and> CropTextRegion
      \<lparr>findContours = (\<lambda>b. []),
       minAreaRect = (\<lambda>c. \<lparr>size_width = 0, size_height = 0, vertices = ((0, 0), (0, 0), (0, 0), (0, 0))\<rparr>),
       drawContours = (\<lambda>h w c. []),
       warpPerspective = (\<lambda>m ps wh. Inr [()]),
       rotate_90_clockwise = (\<lambda>m. [()])\<rparr>
      \<lparr>rows = 10, cols = 10, pixels = [()]\<rparr>
      \<lparr>score = 1, points = [(3, 1), (3, 1), (3, 5), (3, 5)]\<rparr>
     = Inr Mat_default"
proof -
  let ?cv = "\<lparr>findContours = (\<lambda>b. []),
       minAreaRect = (\<lambda>c. \<lparr>size_width = 0, size_height = 0, vertices = ((0, 0), (0, 0), (0, 0), (0, 0))\<rparr>),
       drawContours = (\<lambda>h w c. []),
       warpPerspective = (\<lambda>m ps wh. Inr [()]),
       rotate_90_clockwise = (\<lambda>m. [()])\<rparr> :: unit opencv"
  let ?eng = "\<lparr>initialized = True, det_session = None, rec_session = None, dictionary = []\<rparr>
                :: unit OcrEngine"
  have b: "bounding [(3, 1), (3, 1), (3, 5), (3, 5)] = (3, 3, 1, 5)"
    by (simp add: bounding_def)
  have e: "Mat_empty \<lparr>rows = 0, cols = 0, pixels = ([] :: unit list)\<rparr>"
    by (simp add: Mat_empty_def)
  have s: "static_cast_int (min (real (10::nat)) 3) \<le> static_cast_int (max 0 3)"
    by (simp add: static_cast_int_def)
  from degenerate_input_gives_empty_result
         [where img = "\<lparr>rows = 0, cols = 0, pixels = ([] :: unit list)\<rparr>"
            and box = "\<lparr>score = 1, points = []\<rparr>" and g_session = None
            and conf_threshold = "1 / 2" and cv = ?cv and eng = ?eng
            and det_threshold = "3 / 10" and rec_threshold = "1 / 2"
            and min_x = 0 and max_x = 0 and min_y = 0 and max_y = 0] e
  have 1: "detectDocLayout None \<lparr>rows = 0, cols = 0, pixels = ([] :: unit list)\<rparr> (1 / 2) = []"
    by blast
  have s': "static_cast_int (min (real (cols \<lparr>rows = 10, cols = 10, pixels = [()]\<rparr>)) 3)
              \<le> static_cast_int (max 0 3)"
    using s by simp
  have l: "length (points \<lparr>score = 1, points = [(3, 1), (3, 1), (3, 5), (3, 5)]\<rparr>) = 4"
    by simp
  have b': "bounding (points \<lparr>score = 1, points = [(3, 1), (3, 1), (3, 5), (3, 5)]\<rparr>) = (3, 3, 1, 5)"
    using b by simp
  from degenerate_input_gives_empty_result
         [where img = "\<lparr>rows = 10, cols = 10, pixels = [()]\<rparr>"
            and box = "\<lparr>score = 1, points = [(3, 1), (3, 1), (3, 5), (3, 5)]\<rparr>"
            and cv = ?cv and min_x = 3 and max_x = 3 and min_y = 1 and max_y = 5
            and g_session = None and conf_threshold = "1 / 2" and eng = ?eng
            and det_threshold = "3 / 10" and rec_threshold = "1 / 2"] l b' s'
  have 2: "CropTextRegion ?cv \<lparr>rows = 10, cols = 10, pixels = [()]\<rparr>
             \<lparr>score = 1, points = [(3, 1), (3, 1), (3, 5), (3, 5)]\<rparr> = Inr Mat_default"
    by blast
  from 1 2 b e s show ?thesis by simp
qed

section \<open>DB postprocessing: properties\<close>

lemma set_linear_insert: "set (linear_insert lt x ys) = insert x (set ys)"
  by (induction ys) auto

lemma length_linear_insert: "length (linear_insert lt x ys) = Suc (length ys)"
  by (induction ys) auto

lemma set_insertion_step: "set (insertion_step lt x ys) = insert x (set ys)"
  by (simp add: insertion_step_def set_linear_insert)

lemma length_insertion_step: "length (insertion_step lt x ys) = Suc (length ys)"
  by (simp add: insertion_step_def length_linear_insert)

lemma set_fold_linear_insert: "set (fold (insertion_step lt) xs acc) = set xs \<union> set acc"
  by (induction xs arbitrary: acc) (auto simp: set_insertion_step)

lemma length_fold_linear_insert: "length (fold (insertion_step lt) xs acc) = length xs + length acc"
  by (induction xs arbitrary: acc) (auto simp: length_insertion_step)

lemma set_std_sort: "set (std_sort lt xs) = set xs"
  by (simp add: std_sort_def set_fold_linear_insert)

lemma length_std_sort: "length (std_sort lt xs) = length xs"
  by (simp add: std_sort_def length_fold_linear_insert)

lemma DBPostProcess_mem:
  "b \<in> set (DBPostProcess cv data h w sx sy ow oh t bt) \<longleftrightarrow>
     (\<exists>c \<in> set (findContours cv \<lparr>rows = h, cols = w,
                     pixels = threshold_binary t (prob_map data h w)\<rparr>).
        contour_box cv (prob_map data h w) h w sx sy ow oh bt c = Some b)"
  by (simp add: DBPostProcess_def Let_def set_std_sort set_map_filter_iff)

lemma contour_box_threshold_mono:
  assumes "t1 \<le> t2" and "contour_box cv pm h w sx sy ow oh t2 c = Some b"
  shows "contour_box cv pm h w sx sy ow oh t1 c = Some b"
  using assms by (auto simp: contour_box_def Let_def split: if_splits prod.splits)

lemma detectDocLayout_mem:
  "d \<in> set (detectDocLayout g img t) \<longleftrightarrow>
     (\<not> Mat_empty img \<and>
      (\<exists>s n data. g = Some s \<and> run s img = Some (n, data) \<and>
         d \<in> set (decode_rows (is_l_model (num_inputs s)) (preprocessImage_scale img 640 640)
                    (cols img) (rows img) t n data)))"
  by (cases g; cases "run (the g) img") (auto simp: detectDocLayout_def Let_def)

text \<open>
  C4. Filtering is monotone in the score threshold. With all other inputs the same and
  \<open>t1 \<le> t2\<close>, every detection that the layout decoder emits at confidence threshold
  \<open>t2\<close> it also emits at \<open>t1\<close>, and every polygon that the DB decoder emits at box
  (score) threshold \<open>t2\<close> it also emits at \<open>t1\<close>. The binarization threshold of the DB
  decoder is one of the inputs that stay the same.
\<close>

theorem threshold_monotonicity:
  assumes "t1 \<le> t2"
  shows "set (detectDocLayout g_session img t2) \<subseteq> set (detectDocLayout g_session img t1)
       \<and> set (DBPostProcess cv output_data height width scale_x scale_y orig_width orig_height threshold t2)
          \<subseteq> set (DBPostProcess cv output_data height width scale_x scale_y orig_width orig_height threshold t1)"
proof (intro conjI subsetI)
  fix d assume "d \<in> set (detectDocLayout g_session img t2)"
  then show "d \<in> set (detectDocLayout g_session img t1)"
    unfolding detectDocLayout_mem decode_rows_mem
    using decode_row_threshold_mono [OF assms] by blast
next
  fix b
  assume "b \<in> set (DBPostProcess cv output_data height width scale_x scale_y orig_width orig_height threshold t2)"
  then show "b \<in> set (DBPostProcess cv output_data height width scale_x scale_y orig_width orig_height threshold t1)"
    unfolding DBPostProcess_mem
    using contour_box_threshold_mono [OF assms] by blast
qed

section \<open>Scores: properties\<close>

lemma sum_list_between:
  fixes xs :: "real list"
  assumes "\<forall>v\<in>set xs. lo \<le> v \<and> v \<le> hi"
  shows "lo * real (length xs) \<le> sum_list xs \<and> sum_list xs \<le> hi * real (length xs)"
  using assms by (induction xs) (auto simp: algebra_simps)

lemma spec_mean_between:
  assumes "\<forall>v\<in>set xs. lo \<le> v \<and> v \<le> hi" and "lo \<le> 0" and "0 \<le> hi"
  shows "lo \<le> spec_mean xs \<and> spec_mean xs \<le> hi"
proof (cases "xs = []")
  case True
  with assms show ?thesis by (simp add: spec_mean_def)
next
  case False
  then have n: "0 < real (length xs)" by simp
  from sum_list_between [OF assms(1)] n show ?thesis
    using False by (simp add: spec_mean_def pos_le_divide_eq pos_divide_le_eq)
qed

lemma cv_mean_spec_mean:
  "cv_mean src msk = spec_mean (map fst (filter (\<lambda>(v, m). m \<noteq> 0) (zip src msk)))"
  by (simp add: cv_mean_def spec_mean_def Let_def)

lemma cv_mean_between:
  assumes "\<forall>v\<in>set src. lo \<le> v \<and> v \<le> hi" and "lo \<le> 0" and "0 \<le> hi"
  shows "lo \<le> cv_mean src msk \<and> cv_mean src msk \<le> hi"
proof -
  have "\<forall>v\<in>set (map fst (filter (\<lambda>(v, m). m \<noteq> 0) (zip src msk))). lo \<le> v \<and> v \<le> hi"
    using assms(1) by (auto dest: set_zip_leftD)
  then show ?thesis
    unfolding cv_mean_spec_mean using assms(2,3) by (rule spec_mean_between)
qed

lemma sigmoid_between: "0 < sigmoid v \<and> sigmoid v < 1"
proof -
  have "0 < exp (- v)" by simp
  then show ?thesis by (simp add: sigmoid_def add_pos_pos)
qed

lemma prob_map_unit:
  assumes "looks_like_logits (map data [0..<h * w]) \<or> (\<forall>k<h * w. 0 \<le> data k \<and> data k \<le> 1)"
  shows "\<forall>v\<in>set (prob_map data h w). 0 \<le> v \<and> v \<le> 1"
proof (cases "looks_like_logits (map data [0..<h * w])")
  case True
  then show ?thesis
    using sigmoid_between by (auto simp: prob_map_def Let_def intro: less_imp_le)
next
  case False
  with assms show ?thesis by (auto simp: prob_map_def Let_def)
qed

lemma contour_box_score:
  assumes "contour_box cv pm h w sx sy ow oh bt c = Some b"
  shows "score b = cv_mean pm (drawContours cv h w c)" and "bt \<le> score b"
  using assms by (auto simp: contour_box_def Let_def split: if_splits prod.splits)

lemma fold_add_sum_list:
  fixes f :: "'a \<Rightarrow> real"
  shows "fold (\<lambda>v s. s + f v) xs a = a + sum_list (map f xs)"
  by (induction xs arbitrary: a) auto

lemma member_le_sum_list_real:
  fixes f :: "'a \<Rightarrow> real"
  assumes "x \<in> set xs" and "\<forall>y\<in>set xs. 0 \<le> f y"
  shows "f x \<le> sum_list (map f xs)"
  using assms
proof (induction xs)
  case Nil
  then show ?case by simp
next
  case (Cons a xs)
  have nn: "0 \<le> sum_list (map f xs)"
    using Cons.prems(2) by (intro sum_list_nonneg) auto
  show ?case
  proof (cases "x = a")
    case True
    with nn show ?thesis by simp
  next
    case False
    with Cons have "f x \<le> sum_list (map f xs)" by auto
    moreover have "0 \<le> f a" using Cons.prems(2) by simp
    ultimately show ?thesis by simp
  qed
qed

lemma softmax_between:
  assumes "v < V"
  shows "0 < probs True data V t v \<and> probs True data V t v \<le> 1"
proof -
  let ?e = "\<lambda>u. exp (data (t * V + u) - max_logit data V t)"
  have s: "sum_exp data V t = sum_list (map ?e [0..<V])"
    by (simp add: sum_exp_def fold_add_sum_list)
  have le: "?e v \<le> sum_exp data V t"
    unfolding s using assms by (intro member_le_sum_list_real) auto
  have pos: "0 < ?e v" by simp
  with le have "0 < sum_exp data V t" by linarith
  with le pos show ?thesis by (simp add: probs_def)
qed

lemma argmax_fold_index:
  "\<exists>j \<in> insert i (set vs).
     fold (\<lambda>v (max_idx, max_val). if p v > max_val then (v, p v) else (max_idx, max_val)) vs (i, p i)
       = (j, p j)"
proof (induction vs arbitrary: i)
  case Nil
  show ?case by simp
next
  case (Cons a vs)
  show ?case
  proof (cases "p a > p i")
    case True
    with Cons [of a] show ?thesis by auto
  next
    case False
    with Cons [of i] show ?thesis by auto
  qed
qed

lemma argmax_index:
  assumes "0 < V"
  shows "\<exists>j<V. argmax p V = (j, p j)"
  using argmax_fold_index [of 0 "[1..<V]" p] assms by (auto simp: argmax_def)

lemma max_val_at_unit:
  assumes "0 < V" and "t < n"
    and "need_softmax data V \<or> (\<forall>k<n * V. 0 \<le> data k \<and> data k \<le> 1)"
  shows "0 \<le> max_val_at data V t \<and> max_val_at data V t \<le> 1"
proof -
  obtain j where j: "j < V"
    and a: "argmax (probs (need_softmax data V) data V t) V = (j, probs (need_softmax data V) data V t j)"
    using argmax_index [OF assms(1)] by blast
  have val: "max_val_at data V t = probs (need_softmax data V) data V t j"
    by (simp add: max_val_at_def a)
  show ?thesis
  proof (cases "need_softmax data V")
    case True
    with softmax_between [OF j, of data t] val show ?thesis by simp
  next
    case False
    have "t * V + j < Suc t * V" using j by simp
    also have "\<dots> \<le> n * V" using assms(2) by (intro mult_le_mono1) simp
    finally have "t * V + j < n * V" .
    with False assms(3) val show ?thesis by (simp add: probs_def)
  qed
qed

lemma CTCDecode_unit:
  assumes "CTCDecode dict data n V = Inr (txt, conf)"
    and "need_softmax data V \<or> (\<forall>k<n * V. 0 \<le> data k \<and> data k \<le> 1)"
  shows "0 \<le> conf \<and> conf \<le> 1"
proof -
  from assms(1) have ok: "0 < V \<or> n = 0"
    by (auto simp: CTCDecode_def split: if_splits)
  let ?em = "filter (spec_emits dict (max_idx_at data V)) [0..<n]"
  from assms(1) CTCDecode_spec [OF ok, of dict data]
  have conf: "conf = spec_mean (map (max_val_at data V) ?em)" by simp
  have "\<forall>v\<in>set (map (max_val_at data V) ?em). 0 \<le> v \<and> v \<le> 1"
  proof (cases "n = 0")
    case True
    then show ?thesis by simp
  next
    case False
    with ok have "0 < V" by simp
    then show ?thesis using max_val_at_unit [OF _ _ assms(2)] by auto
  qed
  then show ?thesis unfolding conf by (intro spec_mean_between) auto
qed

text \<open>
  The test of line 421 at its boundary: a first row whose minimum is exactly the value of
  \<^verbatim>\<open>-0.001f\<close> does not compare less than it, so no softmax is applied and the raw maximum
  is the confidence.
\<close>

lemma need_softmax_boundary:
  "\<not> need_softmax (nth [- (8589935 / 8589934592), 21 / 20]) 2
   \<and> CTCDecode ['''', ''x''] (nth [- (8589935 / 8589934592), 21 / 20]) 1 2 = Inr (''x'', 21 / 20)"
  by (simp add: CTCDecode_def ctc_loop_def ctc_step_def ctc_init_def argmax_def probs_def
        need_softmax_def first_min_def first_sum_def upt_conv_Cons)

section \<open>Concrete runs\<close>

text \<open>
  A 6 by 6 probability map with one 4 by 4 block of 0.95, with the contour, the fitted
  rectangle and the filled mask that OpenCV gives for it, and a layout tensor of two
  rows. The examples below evaluate the decoders on them.
\<close>

lemma upt36: "[0..<36] = [0,1,2,3,4,5,6,7,8,9,10,11,12,13,14,15,16,17,18,19,20,21,22,23,24,25,26,27,28,29,30,31,32,33,34,35::nat]"
  by (simp add: upt_conv_Cons)

lemma DBPostProcess_example:
  "DBPostProcess
     \<lparr>findContours = (\<lambda>b. [[(1, 1), (1, 4), (4, 4), (4, 1)]]),
      minAreaRect = (\<lambda>c. \<lparr>size_width = 3, size_height = 3,
                              vertices = ((1, 4), (1, 1), (4, 1), (4, 4))\<rparr>),
      drawContours = (\<lambda>h w c. [0, 0, 0, 0, 0, 0,  0, 255, 255, 255, 255, 0,
                                 0, 255, 255, 255, 255, 0,  0, 255, 255, 255, 255, 0,
                                 0, 255, 255, 255, 255, 0,  0, 0, 0, 0, 0, 0]),
      warpPerspective = (\<lambda>m ps wh. Inr [()]),
      rotate_90_clockwise = (\<lambda>m. [()])\<rparr>
     (nth [0, 0, 0, 0, 0, 0,  0, 19 / 20, 19 / 20, 19 / 20, 19 / 20, 0,
           0, 19 / 20, 19 / 20, 19 / 20, 19 / 20, 0,  0, 19 / 20, 19 / 20, 19 / 20, 19 / 20, 0,
           0, 19 / 20, 19 / 20, 19 / 20, 19 / 20, 0,  0, 0, 0, 0, 0, 0])
     6 6 1 1 32 32 (3 / 10) bt
   = (if 19 / 20 < bt then []
      else [\<lparr>score = 19 / 20, points = [(1, 1), (4, 1), (4, 4), (1, 4)]\<rparr>])"
  by (simp add: DBPostProcess_def prob_map_def looks_like_logits_def minMaxLoc_def upt36
       threshold_binary_def List.map_filter_def contour_box_def cv_mean_def order_points_def
       std_sort_def insertion_step_def scale_back_def clamp_coord_def Let_def)

lemma detectDocLayout_example:
  "detectDocLayout
     (Some \<lparr>num_inputs = 3,
            run = (\<lambda>m. Some (2, nth [0, 1 / 2, 10, 10, 50, 50,  1, 7 / 10, 20, 20, 60, 60]))\<rparr>)
     \<lparr>rows = 100, cols = 100, pixels = [()]\<rparr> t
   = (if t \<le> 1 / 2 then [\<lparr>score = 1 / 2, x1 = 10, y1 = 10, x2 = 50, y2 = 50, class_id = 0,
                               class_name = ''paragraph_title''\<rparr>] else [])
     @ (if t \<le> 7 / 10 then [\<lparr>score = 7 / 10, x1 = 20, y1 = 20, x2 = 60, y2 = 60, class_id = 1,
                               class_name = ''image''\<rparr>] else [])"
  by (simp add: detectDocLayout_def Mat_empty_def decode_rows_def List.map_filter_def
        decode_row_def restore_coords_def inv_scale_def is_l_model_def static_cast_int_def
        DOC_CLASSES_def clamp_coord_def upt_conv_Cons Let_def)

theorem threshold_monotonicity_witness:
  "(3 / 10 :: real) \<le> 3 / 5
   \<and> map score (detectDocLayout
         (Some \<lparr>num_inputs = 3,
            run = (\<lambda>m. Some (2, nth [0, 1 / 2, 10, 10, 50, 50,  1, 7 / 10, 20, 20, 60, 60]))\<rparr>)
         \<lparr>rows = 100, cols = 100, pixels = [()]\<rparr> (3 / 5)) = [7 / 10]
   \<and> set (detectDocLayout
         (Some \<lparr>num_inputs = 3,
            run = (\<lambda>m. Some (2, nth [0, 1 / 2, 10, 10, 50, 50,  1, 7 / 10, 20, 20, 60, 60]))\<rparr>)
         \<lparr>rows = 100, cols = 100, pixels = [()]\<rparr> (3 / 5))
     \<subseteq> set (detectDocLayout
         (Some \<lparr>num_inputs = 3,
            run = (\<lambda>m. Some (2, nth [0, 1 / 2, 10, 10, 50, 50,  1, 7 / 10, 20, 20, 60, 60]))\<rparr>)
         \<lparr>rows = 100, cols = 100, pixels = [()]\<rparr> (3 / 10))
   \<and> map score (DBPostProcess
     \<lparr>findContours = (\<lambda>b. [[(1, 1), (1, 4), (4, 4), (4, 1)]]),
      minAreaRect = (\<lambda>c. \<lparr>size_width = 3, size_height = 3,
                              vertices = ((1, 4), (1, 1), (4, 1), (4, 4))\<rparr>),
      drawContours = (\<lambda>h w c. [0, 0, 0, 0, 0, 0,  0, 255, 255, 255, 255, 0,
                                 0, 255, 255, 255, 255, 0,  0, 255, 255, 255, 255, 0,
                                 0, 255, 255, 255, 255, 0,  0, 0, 0, 0, 0, 0]),
      warpPerspective = (\<lambda>m ps wh. Inr [()]),
      rotate_90_clockwise = (\<lambda>m. [()])\<rparr>
     (nth [0, 0, 0, 0, 0, 0,  0, 19 / 20, 19 / 20, 19 / 20, 19 / 20, 0,
           0, 19 / 20, 19 / 20, 19 / 20, 19 / 20, 0,  0, 19 / 20, 19 / 20, 19 / 20, 19 / 20, 0,
           0, 19 / 20, 19 / 20, 19 / 20, 19 / 20, 0,  0, 0, 0, 0, 0, 0])
     6 6 1 1 32 32 (3 / 10) (3 / 5)) = [19 / 20]
   \<and> set (DBPostProcess
     \<lparr>findContours = (\<lambda>b. [[(1, 1), (1, 4), (4, 4), (4, 1)]]),
      minAreaRect = (\<lambda>c. \<lparr>size_width = 3, size_height = 3,
                              vertices = ((1, 4), (1, 1), (4, 1), (4, 4))\<rparr>),
      drawContours = (\<lambda>h w c. [0, 0, 0, 0, 0, 0,  0, 255, 255, 255, 255, 0,
                                 0, 255, 255, 255, 255, 0,  0, 255, 255, 255, 255, 0,
                                 0, 255, 255, 255, 255, 0,  0, 0, 0, 0, 0, 0]),
      warpPerspective = (\<lambda>m ps wh. Inr [()]),
      rotate_90_clockwise = (\<lambda>m. [()])\<rparr>
     (nth [0, 0, 0, 0, 0, 0,  0, 19 / 20, 19 / 20, 19 / 20, 19 / 20, 0,
           0, 19 / 20, 19 / 20, 19 / 20, 19 / 20, 0,  0, 19 / 20, 19 / 20, 19 / 20, 19 / 20, 0,
           0, 19 / 20, 19 / 20, 19 / 20, 19 / 20, 0,  0, 0, 0, 0, 0, 0])
     6 6 1 1 32 32 (3 / 10) (3 / 5))
     \<subseteq> set (DBPostProcess
     \<lparr>findContours = (\<lambda>b. [[(1, 1), (1, 4), (4, 4), (4, 1)]]),
      minAreaRect = (\<lambda>c. \<lparr>size_width = 3, size_height = 3,
                              vertices = ((1, 4), (1, 1), (4, 1), (4, 4))\<rparr>),
      drawContours = (\<lambda>h w c. [0, 0, 0, 0, 0, 0,  0, 255, 255, 255, 255, 0,
                                 0, 255, 255, 255, 255, 0,  0, 255, 255, 255, 255, 0,
                                 0, 255, 255, 255, 255, 0,  0, 0, 0, 0, 0, 0]),
      warpPerspective = (\<lambda>m ps wh. Inr [()]),
      rotate_90_clockwise = (\<lambda>m. [()])\<rparr>
     (nth [0, 0, 0, 0, 0, 0,  0, 19 / 20, 19 / 20, 19 / 20, 19 / 20, 0,
           0, 19 / 20, 19 / 20, 19 / 20, 19 / 20, 0,  0, 19 / 20, 19 / 20, 19 / 20, 19 / 20, 0,
           0, 19 / 20, 19 / 20, 19 / 20, 19 / 20, 0,  0, 0, 0, 0, 0, 0])
     6 6 1 1 32 32 (3 / 10) (3 / 10))"
proof -
  have le: "(3 / 10 :: real) \<le> 3 / 5" by simp
  note mono = threshold_monotonicity [OF le]
  show ?thesis
    by (intro conjI le mono [THEN conjunct1] mono [THEN conjunct2])
       (simp_all add: detectDocLayout_example DBPostProcess_example)
qed

section \<open>Scores: the unit interval\<close>

text \<open>
  A layout row whose raw score is 1.5 is emitted with score 1.5; a recognition tensor
  whose single timestep is (0, 1.05), which passes for probabilities, decodes with
  confidence 1.05; a 6 by 6 map that is 1.05 everywhere, which passes for probabilities
  too, gives one polygon with score 1.05.
\<close>

theorem score_above_one_counterexample:
  "map score (decode_rows False (2, 2) 320 320 (1 / 2) 1 (nth [0, 3 / 2, 10, 20, 30, 40])) = [3 / 2]
   \<and> \<not> (3 / 2 :: real) \<le> 1
   \<and> CTCDecode ['''', ''x''] (nth [0, 21 / 20]) 1 2 = Inr (''x'', 21 / 20)
   \<and> map score (DBPostProcess
     \<lparr>findContours = (\<lambda>b. [[(0, 0), (0, 5), (5, 5), (5, 0)]]),
      minAreaRect = (\<lambda>c. \<lparr>size_width = 5, size_height = 5,
                              vertices = ((0, 5), (0, 0), (5, 0), (5, 5))\<rparr>),
      drawContours = (\<lambda>h w c. [255, 255, 255, 255, 255, 255,  255, 255, 255, 255, 255, 255,
                                 255, 255, 255, 255, 255, 255,  255, 255, 255, 255, 255, 255,
                                 255, 255, 255, 255, 255, 255,  255, 255, 255, 255, 255, 255]),
      warpPerspective = (\<lambda>m ps wh. Inr [()]),
      rotate_90_clockwise = (\<lambda>m. [()])\<rparr>
     (nth [21 / 20, 21 / 20, 21 / 20, 21 / 20, 21 / 20, 21 / 20,
           21 / 20, 21 / 20, 21 / 20, 21 / 20, 21 / 20, 21 / 20,
           21 / 20, 21 / 20, 21 / 20, 21 / 20, 21 / 20, 21 / 20,
           21 / 20, 21 / 20, 21 / 20, 21 / 20, 21 / 20, 21 / 20,
           21 / 20, 21 / 20, 21 / 20, 21 / 20, 21 / 20, 21 / 20,
           21 / 20, 21 / 20, 21 / 20, 21 / 20, 21 / 20, 21 / 20])
     6 6 1 1 6 6 (3 / 10) (1 / 2)) = [21 / 20]
   \<and> \<not> (21 / 20 :: real) \<le> 1"
proof -
  have "map score (decode_rows False (2, 2) 320 320 (1 / 2) 1 (nth [0, 3 / 2, 10, 20, 30, 40])) = [3 / 2]"
    by (simp add: decode_rows_def List.map_filter_def decode_row_def static_cast_int_def
        DOC_CLASSES_def restore_coords_def inv_scale_def clamp_coord_def)
  moreover have "CTCDecode ['''', ''x''] (nth [0, 21 / 20]) 1 2 = Inr (''x'', 21 / 20)"
    by (simp add: CTCDecode_def ctc_loop_def ctc_step_def ctc_init_def argmax_def probs_def
        need_softmax_def first_min_def first_sum_def upt_conv_Cons)
  moreover have "map score (DBPostProcess
     \<lparr>findContours = (\<lambda>b. [[(0, 0), (0, 5), (5, 5), (5, 0)]]),
      minAreaRect = (\<lambda>c. \<lparr>size_width = 5, size_height = 5,
                              vertices = ((0, 5), (0, 0), (5, 0), (5, 5))\<rparr>),
      drawContours = (\<lambda>h w c. [255, 255, 255, 255, 255, 255,  255, 255, 255, 255, 255, 255,
                                 255, 255, 255, 255, 255, 255,  255, 255, 255, 255, 255, 255,
                                 255, 255, 255, 255, 255, 255,  255, 255, 255, 255, 255, 255]),
      warpPerspective = (\<lambda>m ps wh. Inr [()]),
      rotate_90_clockwise = (\<lambda>m. [()])\<rparr>
     (nth [21 / 20, 21 / 20, 21 / 20, 21 / 20, 21 / 20, 21 / 20,
           21 / 20, 21 / 20, 21 / 20, 21 / 20, 21 / 20, 21 / 20,
           21 / 20, 21 / 20, 21 / 20, 21 / 20, 21 / 20, 21 / 20,
           21 / 20, 21 / 20, 21 / 20, 21 / 20, 21 / 20, 21 / 20,
           21 / 20, 21 / 20, 21 / 20, 21 / 20, 21 / 20, 21 / 20,
           21 / 20, 21 / 20, 21 / 20, 21 / 20, 21 / 20, 21 / 20])
     6 6 1 1 6 6 (3 / 10) (1 / 2)) = [21 / 20]"
    by (simp add: DBPostProcess_def prob_map_def looks_like_logits_def minMaxLoc_def upt36
       threshold_binary_def List.map_filter_def contour_box_def cv_mean_def order_points_def
       std_sort_def insertion_step_def scale_back_def clamp_coord_def Let_def)
  ultimately show ?thesis by simp
qed

lemma DBPostProcess_score_unit:
  assumes "b \<in> set (DBPostProcess cv data h w sx sy ow oh t bt)"
  shows "bt \<le> score b"
    and "looks_like_logits (map data [0..<h * w]) \<or> (\<forall>k<h * w. 0 \<le> data k \<and> data k \<le> 1)
           \<Longrightarrow> 0 \<le> score b \<and> score b \<le> 1"
proof -
  from assms obtain c where c: "contour_box cv (prob_map data h w) h w sx sy ow oh bt c = Some b"
    unfolding DBPostProcess_mem by blast
  from contour_box_score [OF c] show "bt \<le> score b" by simp
  assume "looks_like_logits (map data [0..<h * w]) \<or> (\<forall>k<h * w. 0 \<le> data k \<and> data k \<le> 1)"
  then have "\<forall>v\<in>set (prob_map data h w). 0 \<le> v \<and> v \<le> 1"
    by (rule prob_map_unit)
  then show "0 \<le> score b \<and> score b \<le> 1"
    unfolding contour_box_score(1) [OF c] by (intro cv_mean_between) auto
qed

lemma decode_rows_score_unit:
  assumes "d \<in> set (decode_rows l sf w h t n data)"
  shows "t \<le> score d" and "\<exists>i<n. score d = data (i * 6 + 1)"
  using assms decode_row_fields(1,2) unfolding decode_rows_mem by blast+

text \<open>
  C1, as the code has it. No score is clamped. A detection emitted by \<^verbatim>\<open>detectDocLayout\<close>
  carries the raw score of a row of the session's output tensor, which is at least the
  confidence threshold; the score of a DB polygon is at least the box threshold; and each
  score lies in [0, 1] whenever the values it is read from do: the score column of the
  layout tensor, the probability map (always so once the sigmoid is applied), the values
  of the recognition tensor (always so once the softmax is applied).
\<close>

theorem scores_in_unit_interval:
  "(\<forall>d \<in> set (detectDocLayout g_session img conf_threshold).
       conf_threshold \<le> score d
       \<and> (\<exists>s n rows_data. g_session = Some s \<and> run s img = Some (n, rows_data)
            \<and> (\<exists>i<n. score d = rows_data (i * 6 + 1))
            \<and> ((\<forall>i<n. 0 \<le> rows_data (i * 6 + 1) \<and> rows_data (i * 6 + 1) \<le> 1)
                 \<longrightarrow> 0 \<le> score d \<and> score d \<le> 1)))
   \<and> (\<forall>b \<in> set (DBPostProcess cv map_data height width scale_x scale_y orig_width orig_height
                      threshold box_threshold).
       box_threshold \<le> score b
       \<and> (looks_like_logits (map map_data [0..<height * width])
            \<or> (\<forall>k<height * width. 0 \<le> map_data k \<and> map_data k \<le> 1)
            \<longrightarrow> 0 \<le> score b \<and> score b \<le> 1))
   \<and> (\<forall>str conf. CTCDecode dict seq_data seq_len vocab_size = Inr (str, conf)
          \<and> (need_softmax seq_data vocab_size
              \<or> (\<forall>k<seq_len * vocab_size. 0 \<le> seq_data k \<and> seq_data k \<le> 1))
          \<longrightarrow> 0 \<le> conf \<and> conf \<le> 1)"
proof (intro conjI ballI allI impI)
  fix d
  assume "d \<in> set (detectDocLayout g_session img conf_threshold)"
  then obtain s n rows_data where s: "g_session = Some s" "run s img = Some (n, rows_data)"
    and d: "d \<in> set (decode_rows (is_l_model (num_inputs s)) (preprocessImage_scale img 640 640)
                       (cols img) (rows img) conf_threshold n rows_data)"
    unfolding detectDocLayout_mem by blast
  show "conf_threshold \<le> score d"
    using decode_rows_score_unit(1) [OF d] .
  have ex: "\<exists>i<n. score d = rows_data (i * 6 + 1)"
    using decode_rows_score_unit(2) [OF d] .
  then have "(\<forall>i<n. 0 \<le> rows_data (i * 6 + 1) \<and> rows_data (i * 6 + 1) \<le> 1)
               \<longrightarrow> 0 \<le> score d \<and> score d \<le> 1"
    by auto
  with s ex
  show "\<exists>s n rows_data. g_session = Some s \<and> run s img = Some (n, rows_data)
            \<and> (\<exists>i<n. score d = rows_data (i * 6 + 1))
            \<and> ((\<forall>i<n. 0 \<le> rows_data (i * 6 + 1) \<and> rows_data (i * 6 + 1) \<le> 1)
                 \<longrightarrow> 0 \<le> score d \<and> score d \<le> 1)"
    by blast
next
  fix b
  assume b: "b \<in> set (DBPostProcess cv map_data height width scale_x scale_y orig_width
                        orig_height threshold box_threshold)"
  show "box_threshold \<le> score b"
    using DBPostProcess_score_unit(1) [OF b] .
  assume "looks_like_logits (map map_data [0..<height * width])
            \<or> (\<forall>k<height * width. 0 \<le> map_data k \<and> map_data k \<le> 1)"
  then show "0 \<le> score b" and "score b \<le> 1"
    using DBPostProcess_score_unit(2) [OF b] by simp_all
next
  fix str conf
  assume "CTCDecode dict seq_data seq_len vocab_size = Inr (str, conf)
          \<and> (need_softmax seq_data vocab_size
              \<or> (\<forall>k<seq_len * vocab_size. 0 \<le> seq_data k \<and> seq_data k \<le> 1))"
  then show "0 \<le> conf" and "conf \<le> 1"
    using CTCDecode_unit [of dict seq_data seq_len vocab_size str conf] by simp_all
qed

theorem scores_in_unit_interval_witness:
  "map score (detectDocLayout
         (Some \<lparr>num_inputs = 3,
            run = (\<lambda>m. Some (2, nth [0, 1 / 2, 10, 10, 50, 50,  1, 7 / 10, 20, 20, 60, 60]))\<rparr>)
         \<lparr>rows = 100, cols = 100, pixels = [()]\<rparr> (1 / 2)) = [1 / 2, 7 / 10]
   \<and> list_all (\<lambda>d. 1 / 2 \<le> score d \<and> 0 \<le> score d \<and> score d \<le> 1)
        (detectDocLayout
         (Some \<lparr>num_inputs = 3,
            run = (\<lambda>m. Some (2, nth [0, 1 / 2, 10, 10, 50, 50,  1, 7 / 10, 20, 20, 60, 60]))\<rparr>)
         \<lparr>rows = 100, cols = 100, pixels = [()]\<rparr> (1 / 2))
   \<and> map score (DBPostProcess
     \<lparr>findContours = (\<lambda>b. [[(1, 1), (1, 4), (4, 4), (4, 1)]]),
      minAreaRect = (\<lambda>c. \<lparr>size_width = 3, size_height = 3,
                              vertices = ((1, 4), (1, 1), (4, 1), (4, 4))\<rparr>),
      drawContours = (\<lambda>h w c. [0, 0, 0, 0, 0, 0,  0, 255, 255, 255, 255, 0,
                                 0, 255, 255, 255, 255, 0,  0, 255, 255, 255, 255, 0,
                                 0, 255, 255, 255, 255, 0,  0, 0, 0, 0, 0, 0]),
      warpPerspective = (\<lambda>m ps wh. Inr [()]),
      rotate_90_clockwise = (\<lambda>m. [()])\<rparr>
     (nth [0, 0, 0, 0, 0, 0,  0, 19 / 20, 19 / 20, 19 / 20, 19 / 20, 0,
           0, 19 / 20, 19 / 20, 19 / 20, 19 / 20, 0,  0, 19 / 20, 19 / 20, 19 / 20, 19 / 20, 0,
           0, 19 / 20, 19 / 20, 19 / 20, 19 / 20, 0,  0, 0, 0, 0, 0, 0])
     6 6 1 1 32 32 (3 / 10) (3 / 10)) = [19 / 20]
   \<and> list_all (\<lambda>b. 3 / 10 \<le> score b \<and> 0 \<le> score b \<and> score b \<le> 1) (DBPostProcess
     \<lparr>findContours = (\<lambda>b. [[(1, 1), (1, 4), (4, 4), (4, 1)]]),
      minAreaRect = (\<lambda>c. \<lparr>size_width = 3, size_height = 3,
                              vertices = ((1, 4), (1, 1), (4, 1), (4, 4))\<rparr>),
      drawContours = (\<lambda>h w c. [0, 0, 0, 0, 0, 0,  0, 255, 255, 255, 255, 0,
                                 0, 255, 255, 255, 255, 0,  0, 255, 255, 255, 255, 0,
                                 0, 255, 255, 255, 255, 0,  0, 0, 0, 0, 0, 0]),
      warpPerspective = (\<lambda>m ps wh. Inr [()]),
      rotate_90_clockwise = (\<lambda>m. [()])\<rparr>
     (nth [0, 0, 0, 0, 0, 0,  0, 19 / 20, 19 / 20, 19 / 20, 19 / 20, 0,
           0, 19 / 20, 19 / 20, 19 / 20, 19 / 20, 0,  0, 19 / 20, 19 / 20, 19 / 20, 19 / 20, 0,
           0, 19 / 20, 19 / 20, 19 / 20, 19 / 20, 0,  0, 0, 0, 0, 0, 0])
     6 6 1 1 32 32 (3 / 10) (3 / 10))
   \<and> CTCDecode ['''', ''x''] (nth [1 / 10, 9 / 10, 3 / 5, 2 / 5, 3 / 10, 7 / 10]) 3 2
       = Inr (''xx'', 4 / 5)
   \<and> (0 :: real) \<le> 4 / 5 \<and> (4 / 5 :: real) \<le> 1"
proof -
  let ?rows = "nth [0, 1 / 2, 10, 10, 50, 50,  1, 7 / 10, 20, 20, 60, 60 :: real]"
  let ?s = "\<lparr>num_inputs = 3, run = (\<lambda>m. Some (2, ?rows))\<rparr> :: unit layout_session"
  let ?img = "\<lparr>rows = 100, cols = 100, pixels = [()]\<rparr> :: unit Mat"
  let ?cv = "\<lparr>findContours = (\<lambda>b. [[(1, 1), (1, 4), (4, 4), (4, 1)]]),
      minAreaRect = (\<lambda>c. \<lparr>size_width = 3, size_height = 3,
                              vertices = ((1, 4), (1, 1), (4, 1), (4, 4))\<rparr>),
      drawContours = (\<lambda>h w c. [0, 0, 0, 0, 0, 0,  0, 255, 255, 255, 255, 0,
                                 0, 255, 255, 255, 255, 0,  0, 255, 255, 255, 255, 0,
                                 0, 255, 255, 255, 255, 0,  0, 0, 0, 0, 0, 0]),
      warpPerspective = (\<lambda>m ps wh. Inr [()]),
      rotate_90_clockwise = (\<lambda>m. [()])\<rparr> :: unit opencv"
  let ?map = "nth [0, 0, 0, 0, 0, 0,  0, 19 / 20, 19 / 20, 19 / 20, 19 / 20, 0,
           0, 19 / 20, 19 / 20, 19 / 20, 19 / 20, 0,  0, 19 / 20, 19 / 20, 19 / 20, 19 / 20, 0,
           0, 19 / 20, 19 / 20, 19 / 20, 19 / 20, 0,  0, 0, 0, 0, 0, 0 :: real]"
  let ?seq = "nth [1 / 10, 9 / 10, 3 / 5, 2 / 5, 3 / 10, 7 / 10 :: real]"
  note inst = scores_in_unit_interval
    [where g_session = "Some ?s" and img = ?img and conf_threshold = "1 / 2"
       and cv = ?cv and map_data = ?map and height = 6 and width = 6 and scale_x = 1
       and scale_y = 1 and orig_width = 32 and orig_height = 32 and threshold = "3 / 10"
       and box_threshold = "3 / 10"
       and dict = "['''', ''x'']" and seq_data = ?seq and seq_len = 3 and vocab_size = 2]
  have rows_ok: "\<forall>i<2. 0 \<le> ?rows (i * 6 + 1) \<and> ?rows (i * 6 + 1) \<le> 1"
    by (simp add: less_Suc_eq numeral_2_eq_2)
  have "\<forall>k\<in>set [0..<36]. 0 \<le> ?map k \<and> ?map k \<le> 1"
    unfolding upt36 by simp
  then have map_ok: "\<forall>k<6 * 6. 0 \<le> ?map k \<and> ?map k \<le> 1"
    by simp
  have "\<forall>k\<in>set [0..<6]. 0 \<le> ?seq k \<and> ?seq k \<le> 1"
    by (simp add: upt_conv_Cons)
  then have seq_ok: "\<forall>k<3 * 2. 0 \<le> ?seq k \<and> ?seq k \<le> 1"
    by simp
  have ctc: "CTCDecode ['''', ''x''] ?seq 3 2 = Inr (''xx'', 4 / 5)"
    by (simp add: CTCDecode_def ctc_loop_def ctc_step_def ctc_init_def argmax_def probs_def
          need_softmax_def first_min_def first_sum_def upt_conv_Cons)
  have rows: "map score (detectDocLayout (Some ?s) ?img (1 / 2)) = [1 / 2, 7 / 10]"
    by (simp add: detectDocLayout_example)
  have db: "map score (DBPostProcess ?cv ?map 6 6 1 1 32 32 (3 / 10) (3 / 10)) = [19 / 20]"
    by (simp add: DBPostProcess_example)
  have 1: "list_all (\<lambda>d. 1 / 2 \<le> score d \<and> 0 \<le> score d \<and> score d \<le> 1)
             (detectDocLayout (Some ?s) ?img (1 / 2))"
    unfolding list_all_iff
  proof
    fix d assume d: "d \<in> set (detectDocLayout (Some ?s) ?img (1 / 2))"
    with inst obtain s n rows_data where t: "1 / 2 \<le> score d"
      and s: "Some ?s = Some s" "run s ?img = Some (n, rows_data)"
      and imp: "(\<forall>i<n. 0 \<le> rows_data (i * 6 + 1) \<and> rows_data (i * 6 + 1) \<le> 1)
                 \<longrightarrow> 0 \<le> score d \<and> score d \<le> 1"
      by blast
    from s have "n = 2" and "rows_data = ?rows" by auto
    with imp rows_ok t show "1 / 2 \<le> score d \<and> 0 \<le> score d \<and> score d \<le> 1"
      by blast
  qed
  from inst map_ok
  have 2: "list_all (\<lambda>b. 3 / 10 \<le> score b \<and> 0 \<le> score b \<and> score b \<le> 1)
             (DBPostProcess ?cv ?map 6 6 1 1 32 32 (3 / 10) (3 / 10))"
    unfolding list_all_iff by blast
  from inst ctc seq_ok have 3: "(0 :: real) \<le> 4 / 5 \<and> (4 / 5 :: real) \<le> 1"
    by blast
  from rows 1 db 2 ctc 3 show ?thesis by blast
qed

section \<open>Boxes and text lines: properties\<close>

lemma bounding_fold:
  fixes a b c d :: real
  assumes "fold (\<lambda>pt (min_x, max_x, min_y, max_y).
             (min min_x (fst pt), max max_x (fst pt), min min_y (snd pt), max max_y (snd pt)))
           ps (a, b, c, d) = (a', b', c', d')"
  shows "a' \<le> a \<and> b \<le> b' \<and> c' \<le> c \<and> d \<le> d'
       \<and> (\<forall>p\<in>set ps. a' \<le> fst p \<and> fst p \<le> b' \<and> c' \<le> snd p \<and> snd p \<le> d')
       \<and> a' \<in> insert a (fst ` set ps) \<and> b' \<in> insert b (fst ` set ps)
       \<and> c' \<in> insert c (snd ` set ps) \<and> d' \<in> insert d (snd ` set ps)"
  using assms
proof (induction ps arbitrary: a b c d)
  case Nil
  then show ?case by simp
next
  case (Cons p ps)
  from Cons.prems have "fold (\<lambda>pt (min_x, max_x, min_y, max_y).
             (min min_x (fst pt), max max_x (fst pt), min min_y (snd pt), max max_y (snd pt)))
           ps (min a (fst p), max b (fst p), min c (snd p), max d (snd p)) = (a', b', c', d')"
    by simp
  note ih = Cons.IH [OF this]
  have mn: "min a (fst p) = a \<or> min a (fst p) = fst p" "min c (snd p) = c \<or> min c (snd p) = snd p"
    and mx: "max b (fst p) = b \<or> max b (fst p) = fst p" "max d (snd p) = d \<or> max d (snd p) = snd p"
    by (auto simp: min_def max_def)
  have le: "min a (fst p) \<le> a" "min a (fst p) \<le> fst p" "b \<le> max b (fst p)" "fst p \<le> max b (fst p)"
    "min c (snd p) \<le> c" "min c (snd p) \<le> snd p" "d \<le> max d (snd p)" "snd p \<le> max d (snd p)"
    by simp_all
  have 1: "a' \<le> a" "a' \<le> fst p" "b \<le> b'" "fst p \<le> b'" "c' \<le> c" "c' \<le> snd p" "d \<le> d'" "snd p \<le> d'"
    using ih le by linarith+
  have 2: "\<forall>q\<in>set ps. a' \<le> fst q \<and> fst q \<le> b' \<and> c' \<le> snd q \<and> snd q \<le> d'"
    using ih by blast
  have 3: "a' \<in> insert a (fst ` set (p # ps))" "b' \<in> insert b (fst ` set (p # ps))"
      "c' \<in> insert c (snd ` set (p # ps))" "d' \<in> insert d (snd ` set (p # ps))"
    using ih mn mx by auto
  from 1 2 3 show ?case by simp
qed

lemma bounding_ordered:
  assumes "bounding ps = (min_x, max_x, min_y, max_y)"
  shows "min_x \<le> max_x \<and> min_y \<le> max_y"
  using bounding_fold [OF assms [unfolded bounding_def]] by linarith

lemma bounding_extrema:
  assumes "bounding ps = (min_x, max_x, min_y, max_y)" and "ps \<noteq> []"
  shows "min_x = Min (fst ` set ps)" and "max_x = Max (fst ` set ps)"
    and "min_y = Min (snd ` set ps)" and "max_y = Max (snd ` set ps)"
proof -
  note f = bounding_fold [OF assms(1) [unfolded bounding_def]]
  from assms(2) have 0: "ps ! 0 \<in> set ps" by simp
  then have m: "fst (ps ! 0) \<in> fst ` set ps" "snd (ps ! 0) \<in> snd ` set ps" by auto
  have b: "\<forall>p\<in>set ps. min_x \<le> fst p \<and> fst p \<le> max_x \<and> min_y \<le> snd p \<and> snd p \<le> max_y"
    using f by blast
  have i: "min_x \<in> fst ` set ps" "max_x \<in> fst ` set ps" "min_y \<in> snd ` set ps" "max_y \<in> snd ` set ps"
    using f m by blast+
  show "min_x = Min (fst ` set ps)" using b i(1) by (intro Min_eqI [symmetric]) auto
  show "max_x = Max (fst ` set ps)" using b i(2) by (intro Max_eqI [symmetric]) auto
  show "min_y = Min (snd ` set ps)" using b i(3) by (intro Min_eqI [symmetric]) auto
  show "max_y = Max (snd ` set ps)" using b i(4) by (intro Max_eqI [symmetric]) auto
qed

lemma bounding_within:
  assumes "bounding ps = (min_x, max_x, min_y, max_y)" and "ps \<noteq> []"
    and "\<forall>p\<in>set ps. lx \<le> fst p \<and> fst p \<le> ux \<and> ly \<le> snd p \<and> snd p \<le> uy"
  shows "lx \<le> min_x \<and> max_x \<le> ux \<and> ly \<le> min_y \<and> max_y \<le> uy"
proof -
  note f = bounding_fold [OF assms(1) [unfolded bounding_def]]
  from assms(2) have 0: "ps ! 0 \<in> set ps" by simp
  then have m: "fst (ps ! 0) \<in> fst ` set ps" "snd (ps ! 0) \<in> snd ` set ps" by auto
  have i: "min_x \<in> fst ` set ps" "max_x \<in> fst ` set ps" "min_y \<in> snd ` set ps" "max_y \<in> snd ` set ps"
    using f m by blast+
  with assms(3) show ?thesis by auto
qed

lemma order_points_subset:
  assumes "length ps = 4"
  shows "length (order_points ps) = 4" and "set (order_points ps) \<subseteq> set ps"
proof -
  define s where "s = std_sort (\<lambda>a b. snd a < snd b) ps"
  define s1 where "s1 = (if fst (s ! 0) > fst (s ! 1) then s[0 := s ! 1, 1 := s ! 0] else s)"
  have ls: "length s = 4" using assms by (simp add: s_def length_std_sort)
  have ss: "set s = set ps" by (simp add: s_def set_std_sort)
  have l1: "length s1 = 4" using ls by (simp add: s1_def)
  have "set (s[0 := s ! 1, 1 := s ! 0]) = set s"
    using ls by (intro set_swap) simp_all
  then have s1: "set s1 = set s" by (simp add: s1_def)
  have s2: "set (s1[2 := s1 ! 3, 3 := s1 ! 2]) = set s1"
    using l1 by (intro set_swap) simp_all
  have op: "order_points ps = (if fst (s1 ! 2) < fst (s1 ! 3) then s1[2 := s1 ! 3, 3 := s1 ! 2] else s1)"
    by (simp add: order_points_def Let_def s_def s1_def)
  show "length (order_points ps) = 4"
    using l1 by (simp add: op)
  show "set (order_points ps) \<subseteq> set ps"
    using s1 s2 ss by (simp add: op)
qed

lemma contour_box_points:
  assumes "contour_box cv pm h w sx sy ow oh bt c = Some b"
  shows "length (points b) = 4"
    and "\<forall>p\<in>set (points b). 0 \<le> fst p \<and> fst p \<le> real ow \<and> 0 \<le> snd p \<and> snd p \<le> real oh"
proof -
  obtain v0 v1 v2 v3 where v: "vertices (minAreaRect cv c) = (v0, v1, v2, v3)"
    by (cases "vertices (minAreaRect cv c)") auto
  define ps where "ps = map (scale_back sx sy ow oh) [v0, v1, v2, v3]"
  from assms v have pb: "points b = order_points ps"
    by (auto simp: contour_box_def Let_def ps_def split: if_splits)
  have len: "length ps = 4" by (simp add: ps_def)
  from order_points_subset(1) [OF len] pb show "length (points b) = 4" by simp
  have sub: "set (points b) \<subseteq> set ps"
    unfolding pb by (rule order_points_subset(2) [OF len])
  have bnd: "0 \<le> fst p \<and> fst p \<le> real ow \<and> 0 \<le> snd p \<and> snd p \<le> real oh" if "p \<in> set ps" for p
    using that clamp_coord_bounds by (auto simp: ps_def scale_back_def)
  show "\<forall>p\<in>set (points b). 0 \<le> fst p \<and> fst p \<le> real ow \<and> 0 \<le> snd p \<and> snd p \<le> real oh"
  proof
    fix p assume "p \<in> set (points b)"
    with sub have "p \<in> set ps" by blast
    then show "0 \<le> fst p \<and> fst p \<le> real ow \<and> 0 \<le> snd p \<and> snd p \<le> real oh" by (rule bnd)
  qed
qed

lemma DBPostProcess_points:
  assumes "b \<in> set (DBPostProcess cv data h w sx sy ow oh t bt)"
  shows "length (points b) = 4"
    and "\<forall>p\<in>set (points b). 0 \<le> fst p \<and> fst p \<le> real ow \<and> 0 \<le> snd p \<and> snd p \<le> real oh"
proof -
  from assms obtain c where c: "contour_box cv (prob_map data h w) h w sx sy ow oh bt c = Some b"
    unfolding DBPostProcess_mem by blast
  show "length (points b) = 4" by (rule contour_box_points(1) [OF c])
  show "\<forall>p\<in>set (points b). 0 \<le> fst p \<and> fst p \<le> real ow \<and> 0 \<le> snd p \<and> snd p \<le> real oh"
    by (rule contour_box_points(2) [OF c])
qed

lemma DetectText_mem:
  assumes "b \<in> set (DetectText cv eng img t)"
  shows "\<exists>data h w sx sy. b \<in> set (DBPostProcess cv data h w sx sy (cols img) (rows img) t (5033165 / 16777216))"
proof (cases "if initialized eng then det_session eng else None")
  case None
  with assms show ?thesis by (simp add: DetectText_def)
next
  case (Some det_run)
  note dr = this
  obtain sx sy where sc: "PreprocessForDetection_scale img = (sx, sy)"
    by (cases "PreprocessForDetection_scale img") auto
  show ?thesis
  proof (cases "det_run img")
    case None
    with assms dr sc show ?thesis
      by (simp add: DetectText_def split: if_splits)
  next
    case (Some out)
    obtain h w data where out: "out = (h, w, data)" by (cases out) auto
    from assms dr Some out sc
    have "b \<in> set (DBPostProcess cv data h w sx sy (cols img) (rows img) t (5033165 / 16777216))"
      by (simp add: DetectText_def split: if_splits)
    then show ?thesis by blast
  qed
qed

lemma DetectText_points:
  assumes "b \<in> set (DetectText cv eng img t)"
  shows "length (points b) = 4"
    and "\<forall>p\<in>set (points b). 0 \<le> fst p \<and> fst p \<le> real (cols img)
                              \<and> 0 \<le> snd p \<and> snd p \<le> real (rows img)"
proof -
  from DetectText_mem [OF assms] obtain data h w sx sy
    where m: "b \<in> set (DBPostProcess cv data h w sx sy (cols img) (rows img) t (5033165 / 16777216))" by blast
  show "length (points b) = 4" by (rule DBPostProcess_points(1) [OF m])
  show "\<forall>p\<in>set (points b). 0 \<le> fst p \<and> fst p \<le> real (cols img)
                              \<and> 0 \<le> snd p \<and> snd p \<le> real (rows img)"
    by (rule DBPostProcess_points(2) [OF m])
qed

lemma recognize_box_Some:
  assumes "recognize_box cv eng img rt box = Inr (Some r)"
  shows "\<exists>region. CropTextRegion cv img box = Inr region \<and> \<not> Mat_empty region
           \<and> RecognizeRegion eng region = Inr (line_text r, score r)"
    and "line_text r \<noteq> []" and "rt \<le> score r"
    and "bounding (points box) = (x1 r, x2 r, y1 r, y2 r)"
  using assms
  by (auto simp: recognize_box_def split: sum.splits if_splits prod.splits)

lemma recognize_boxes_mem:
  assumes "recognize_boxes cv eng img rt boxes = Inr rs" and "r \<in> set rs"
  shows "\<exists>box\<in>set boxes. recognize_box cv eng img rt box = Inr (Some r)"
  using assms
proof (induction boxes arbitrary: rs)
  case Nil
  then show ?case by simp
next
  case (Cons box boxes)
  then show ?case
    by (auto split: sum.splits option.splits)
qed

lemma RecognizeText_mem:
  assumes "RecognizeText cv eng img dt rt = Inr rs" and "r \<in> set rs"
  shows "\<exists>box\<in>set (DetectText cv eng img dt). recognize_box cv eng img rt box = Inr (Some r)"
  using assms recognize_boxes_mem [of cv eng img rt "DetectText cv eng img dt" rs r]
  by (auto simp: RecognizeText_def Let_def split: if_splits)

lemma RecognizeText_example:
  "RecognizeText
     \<lparr>findContours = (\<lambda>b. [[(1, 1), (1, 4), (4, 4), (4, 1)]]),
      minAreaRect = (\<lambda>c. \<lparr>size_width = 3, size_height = 3,
                              vertices = ((1, 4), (1, 1), (4, 1), (4, 4))\<rparr>),
      drawContours = (\<lambda>h w c. [0, 0, 0, 0, 0, 0,  0, 255, 255, 255, 255, 0,
                                 0, 255, 255, 255, 255, 0,  0, 255, 255, 255, 255, 0,
                                 0, 255, 255, 255, 255, 0,  0, 0, 0, 0, 0, 0]),
      warpPerspective = (\<lambda>m ps wh. Inr [()]),
      rotate_90_clockwise = (\<lambda>m. [()])\<rparr>
     \<lparr>initialized = True,
      det_session = Some (\<lambda>m. Some (6, 6,
        nth [0, 0, 0, 0, 0, 0,  0, 19 / 20, 19 / 20, 19 / 20, 19 / 20, 0,
             0, 19 / 20, 19 / 20, 19 / 20, 19 / 20, 0,  0, 19 / 20, 19 / 20, 19 / 20, 19 / 20, 0,
             0, 19 / 20, 19 / 20, 19 / 20, 19 / 20, 0,  0, 0, 0, 0, 0, 0])),
      rec_session = Some (\<lambda>m. Some (3, 2, nth [1 / 10, 9 / 10, 3 / 5, 2 / 5, 3 / 10, 7 / 10])),
      dictionary = ['''', ''x'']\<rparr>
     \<lparr>rows = 32, cols = 32, pixels = [()]\<rparr> (3 / 10) (1 / 2)
   = Inr [\<lparr>score = 4 / 5, x1 = 1, y1 = 1, x2 = 4, y2 = 4, line_text = ''xx''\<rparr>]"
proof -
  have s9: "sqrt 9 = 3"
    using real_sqrt_abs [of 3] by simp
  have ctc: "CTCDecode ['''', ''x''] (nth [1 / 10, 9 / 10, 3 / 5, 2 / 5, 3 / 10, 7 / 10]) 3 2
               = Inr (''xx'', 4 / 5)"
    by (simp add: CTCDecode_def ctc_loop_def ctc_step_def ctc_init_def argmax_def probs_def
          need_softmax_def first_min_def first_sum_def upt_conv_Cons)
  have sc: "PreprocessForDetection_scale \<lparr>rows = 32, cols = 32, pixels = [()]\<rparr> = (1, 1)"
    by (simp add: PreprocessForDetection_scale_def DET_MAX_SIDE_def DET_LIMIT_SIDE_def
          static_cast_int_def Let_def)
  show ?thesis
    by (simp add: RecognizeText_def DetectText_def Mat_empty_def sc DBPostProcess_example
          recognize_box_def CropTextRegion_def bounding_def distance_def static_cast_int_def
          s9 RecognizeRegion_def ctc Let_def)
qed

section \<open>Text lines and bounds\<close>

lemma recognize_boxes_eq:
  assumes "recognize_boxes cv eng img rt boxes = Inr rs"
  shows "rs = List.map_filter
                (\<lambda>box. case recognize_box cv eng img rt box of Inl e \<Rightarrow> None | Inr r \<Rightarrow> r) boxes"
  using assms
proof (induction boxes arbitrary: rs)
  case Nil
  then show ?case by (simp add: map_filter_simps)
next
  case (Cons box boxes)
  then show ?case
    by (auto simp: map_filter_simps split: sum.splits option.splits)
qed

lemma RecognizeText_eq:
  assumes "RecognizeText cv eng img dt rt = Inr rs"
  shows "rs = List.map_filter
                (\<lambda>box. case recognize_box cv eng img rt box of Inl e \<Rightarrow> None | Inr r \<Rightarrow> r)
                (DetectText cv eng img dt)"
proof (cases "DetectText cv eng img dt = []")
  case True
  with assms show ?thesis
    by (simp add: RecognizeText_def map_filter_simps split: if_splits)
next
  case False
  show ?thesis
  proof (cases "\<not> initialized eng \<or> Mat_empty img")
    case True
    then have "DetectText cv eng img dt = []"
      by (auto simp: DetectText_def split: option.splits)
    with False show ?thesis by simp
  next
    case False
    with \<open>DetectText cv eng img dt \<noteq> []\<close> assms
    have "recognize_boxes cv eng img rt (DetectText cv eng img dt) = Inr rs"
      by (simp add: RecognizeText_def Let_def)
    then show ?thesis by (rule recognize_boxes_eq)
  qed
qed

lemma recognize_box_skips:
  "CropTextRegion cv img box = Inr region \<Longrightarrow> Mat_empty region
     \<Longrightarrow> recognize_box cv eng img rt box = Inr None"
  "CropTextRegion cv img box = Inr region \<Longrightarrow> \<not> Mat_empty region
     \<Longrightarrow> RecognizeRegion eng region = Inr (str, sc) \<Longrightarrow> str = [] \<or> sc < rt
     \<Longrightarrow> recognize_box cv eng img rt box = Inr None"
  by (auto simp: recognize_box_def)

text \<open>
  C10. Every line that \<^verbatim>\<open>RecognizeText\<close> returns has a text that is not empty and a
  score of at least \<open>rec_threshold\<close>; it comes from a detected box whose crop is not
  empty and is recognized as that text with that score, and its rectangle is the minimum
  and the maximum of that box's points, so \<open>x1 \<le> x2\<close> and \<open>y1 \<le> y2\<close>. The lines
  returned are those of the boxes that are not skipped, in the order of the boxes; a box
  with an empty crop, an empty text or a score below the threshold is skipped without a
  fault.
\<close>

theorem text_line_results:
  assumes "RecognizeText cv eng img det_threshold rec_threshold = Inr results"
  shows "(\<forall>r\<in>set results.
            line_text r \<noteq> [] \<and> rec_threshold \<le> score r \<and> x1 r \<le> x2 r \<and> y1 r \<le> y2 r
            \<and> (\<exists>box\<in>set (DetectText cv eng img det_threshold). \<exists>region.
                  CropTextRegion cv img box = Inr region \<and> \<not> Mat_empty region
                  \<and> RecognizeRegion eng region = Inr (line_text r, score r)
                  \<and> x1 r = Min (fst ` set (points box)) \<and> x2 r = Max (fst ` set (points box))
                  \<and> y1 r = Min (snd ` set (points box)) \<and> y2 r = Max (snd ` set (points box))))
       \<and> results = List.map_filter
           (\<lambda>box. case recognize_box cv eng img rec_threshold box of Inl e \<Rightarrow> None | Inr r \<Rightarrow> r)
           (DetectText cv eng img det_threshold)
       \<and> (\<forall>box region. CropTextRegion cv img box = Inr region \<and> Mat_empty region
            \<longrightarrow> recognize_box cv eng img rec_threshold box = Inr None)
       \<and> (\<forall>box region str sc. CropTextRegion cv img box = Inr region \<and> \<not> Mat_empty region
            \<and> RecognizeRegion eng region = Inr (str, sc) \<and> (str = [] \<or> sc < rec_threshold)
            \<longrightarrow> recognize_box cv eng img rec_threshold box = Inr None)"
proof (intro conjI ballI allI impI)
  fix r assume r: "r \<in> set results"
  from RecognizeText_mem [OF assms r] obtain box
    where box: "box \<in> set (DetectText cv eng img det_threshold)"
      and rb: "recognize_box cv eng img rec_threshold box = Inr (Some r)" by blast
  note f = recognize_box_Some [OF rb]
  show "line_text r \<noteq> []" by (rule f(2))
  show "rec_threshold \<le> score r" by (rule f(3))
  from bounding_ordered [OF f(4)] show "x1 r \<le> x2 r" and "y1 r \<le> y2 r" by simp_all
  from DetectText_points(1) [OF box] have ne: "points box \<noteq> []" by auto
  note e = bounding_extrema [OF f(4) ne]
  from f(1) obtain region where "CropTextRegion cv img box = Inr region" "\<not> Mat_empty region"
    "RecognizeRegion eng region = Inr (line_text r, score r)" by blast
  with box e
  show "\<exists>box\<in>set (DetectText cv eng img det_threshold). \<exists>region.
                  CropTextRegion cv img box = Inr region \<and> \<not> Mat_empty region
                  \<and> RecognizeRegion eng region = Inr (line_text r, score r)
                  \<and> x1 r = Min (fst ` set (points box)) \<and> x2 r = Max (fst ` set (points box))
                  \<and> y1 r = Min (snd ` set (points box)) \<and> y2 r = Max (snd ` set (points box))"
    by blast
next
  show "results = List.map_filter
           (\<lambda>box. case recognize_box cv eng img rec_threshold box of Inl e \<Rightarrow> None | Inr r \<Rightarrow> r)
           (DetectText cv eng img det_threshold)"
    using assms by (rule RecognizeText_eq)
next
  fix box region
  assume "CropTextRegion cv img box = Inr region \<and> Mat_empty region"
  then show "recognize_box cv eng img rec_threshold box = Inr None"
    using recognize_box_skips(1) by blast
next
  fix box region str sc
  assume "CropTextRegion cv img box = Inr region \<and> \<not> Mat_empty region
            \<and> RecognizeRegion eng region = Inr (str, sc) \<and> (str = [] \<or> sc < rec_threshold)"
  then show "recognize_box cv eng img rec_threshold box = Inr None"
    using recognize_box_skips(2) by blast
qed

lemma inv_scale_nonneg:
  assumes "0 \<le> fst sf" and "0 \<le> snd sf"
  shows "0 \<le> fst (inv_scale l sf) \<and> 0 \<le> snd (inv_scale l sf)"
  using assms by (simp add: inv_scale_def)

lemma decode_row_bounds:
  assumes "decode_row l sf w h t data i = Some d"
  shows "0 \<le> x1 d \<and> x1 d \<le> real w \<and> 0 \<le> x2 d \<and> x2 d \<le> real w
       \<and> 0 \<le> y1 d \<and> y1 d \<le> real h \<and> 0 \<le> y2 d \<and> y2 d \<le> real h"
  using decode_row_fields(3) [OF assms] clamp_coord_bounds
  by (auto split: prod.splits)

lemma decode_row_ordered:
  assumes "decode_row l sf w h t data i = Some d" and "0 \<le> fst sf" and "0 \<le> snd sf"
    and "data (i * 6 + 2) \<le> data (i * 6 + 4)" and "data (i * 6 + 3) \<le> data (i * 6 + 5)"
  shows "x1 d \<le> x2 d \<and> y1 d \<le> y2 d"
proof -
  from inv_scale_nonneg [OF assms(2,3), of l]
  have "data (i * 6 + 2) * fst (inv_scale l sf) \<le> data (i * 6 + 4) * fst (inv_scale l sf)"
    and "data (i * 6 + 3) * snd (inv_scale l sf) \<le> data (i * 6 + 5) * snd (inv_scale l sf)"
    using assms(4,5) by (simp_all add: mult_right_mono)
  then show ?thesis
    using decode_row_fields(3) [OF assms(1)] clamp_coord_mono
    by (simp add: restore_coords_def Let_def)
qed

text \<open>
  C3, as the code has it. Every coordinate of an emitted layout detection lies within
  the original image: \<open>x1\<close> and \<open>x2\<close> in [0, width], \<open>y1\<close> and \<open>y2\<close> in
  [0, height]. The decoder clamps each coordinate by itself and does not order them:
  \<open>x1 \<le> x2\<close> and \<open>y1 \<le> y2\<close> hold when the raw rows have them so. For every text line
  that \<^verbatim>\<open>RecognizeText\<close> returns, \<open>0 \<le> x1 \<le> x2 \<le> width\<close> and
  \<open>0 \<le> y1 \<le> y2 \<le> height\<close>.
\<close>

theorem coordinates_within_bounds:
  "(\<forall>d\<in>set (detectDocLayout g_session img conf_threshold).
       0 \<le> x1 d \<and> x1 d \<le> real (cols img) \<and> 0 \<le> x2 d \<and> x2 d \<le> real (cols img)
       \<and> 0 \<le> y1 d \<and> y1 d \<le> real (rows img) \<and> 0 \<le> y2 d \<and> y2 d \<le> real (rows img))
   \<and> (\<forall>s n data. g_session = Some s \<and> run s img = Some (n, data)
         \<and> (\<forall>i<n. data (i * 6 + 2) \<le> data (i * 6 + 4) \<and> data (i * 6 + 3) \<le> data (i * 6 + 5))
         \<longrightarrow> (\<forall>d\<in>set (detectDocLayout g_session img conf_threshold).
                x1 d \<le> x2 d \<and> y1 d \<le> y2 d))
   \<and> (\<forall>results. RecognizeText cv eng img det_threshold rec_threshold = Inr results
         \<longrightarrow> (\<forall>r\<in>set results.
                0 \<le> x1 r \<and> x1 r \<le> x2 r \<and> x2 r \<le> real (cols img)
                \<and> 0 \<le> y1 r \<and> y1 r \<le> y2 r \<and> y2 r \<le> real (rows img)))"
proof (intro conjI allI impI ballI)
  fix d assume "d \<in> set (detectDocLayout g_session img conf_threshold)"
  then obtain s :: "'a layout_session" and data i where "decode_row (is_l_model (num_inputs s))
      (preprocessImage_scale img 640 640) (cols img) (rows img) conf_threshold data i = Some d"
    unfolding detectDocLayout_mem decode_rows_mem by auto
  from decode_row_bounds [OF this]
  show "0 \<le> x1 d" "x1 d \<le> real (cols img)" "0 \<le> x2 d" "x2 d \<le> real (cols img)"
    "0 \<le> y1 d" "y1 d \<le> real (rows img)" "0 \<le> y2 d" "y2 d \<le> real (rows img)"
    by simp_all
next
  fix s n data d
  assume h: "g_session = Some s \<and> run s img = Some (n, data)
         \<and> (\<forall>i<n. data (i * 6 + 2) \<le> data (i * 6 + 4) \<and> data (i * 6 + 3) \<le> data (i * 6 + 5))"
    and "d \<in> set (detectDocLayout g_session img conf_threshold)"
  then obtain i where i: "i < n" and "decode_row (is_l_model (num_inputs s))
      (preprocessImage_scale img 640 640) (cols img) (rows img) conf_threshold data i = Some d"
    unfolding detectDocLayout_mem decode_rows_mem by auto
  from decode_row_ordered [OF this(2)] h i
  show "x1 d \<le> x2 d" and "y1 d \<le> y2 d"
    by (simp_all add: preprocessImage_scale_def)
next
  fix results r
  assume rt: "RecognizeText cv eng img det_threshold rec_threshold = Inr results"
    and r: "r \<in> set results"
  from RecognizeText_mem [OF rt r] obtain box
    where box: "box \<in> set (DetectText cv eng img det_threshold)"
      and rb: "recognize_box cv eng img rec_threshold box = Inr (Some r)" by blast
  note b = recognize_box_Some(4) [OF rb]
  from DetectText_points(1) [OF box] have ne: "points box \<noteq> []" by auto
  from bounding_ordered [OF b] bounding_within [OF b ne DetectText_points(2) [OF box]]
  show "0 \<le> x1 r" "x1 r \<le> x2 r" "x2 r \<le> real (cols img)"
    "0 \<le> y1 r" "y1 r \<le> y2 r" "y2 r \<le> real (rows img)"
    by simp_all
qed

theorem text_line_results_witness:
  "RecognizeText
     \<lparr>findContours = (\<lambda>b. [[(1, 1), (1, 4), (4, 4), (4, 1)]]),
      minAreaRect = (\<lambda>c. \<lparr>size_width = 3, size_height = 3,
                              vertices = ((1, 4), (1, 1), (4, 1), (4, 4))\<rparr>),
      drawContours = (\<lambda>h w c. [0, 0, 0, 0, 0, 0,  0, 255, 255, 255, 255, 0,
                                 0, 255, 255, 255, 255, 0,  0, 255, 255, 255, 255, 0,
                                 0, 255, 255, 255, 255, 0,  0, 0, 0, 0, 0, 0]),
      warpPerspective = (\<lambda>m ps wh. Inr [()]),
      rotate_90_clockwise = (\<lambda>m. [()])\<rparr>
     \<lparr>initialized = True,
      det_session = Some (\<lambda>m. Some (6, 6,
        nth [0, 0, 0, 0, 0, 0,  0, 19 / 20, 19 / 20, 19 / 20, 19 / 20, 0,
             0, 19 / 20, 19 / 20, 19 / 20, 19 / 20, 0,  0, 19 / 20, 19 / 20, 19 / 20, 19 / 20, 0,
             0, 19 / 20, 19 / 20, 19 / 20, 19 / 20, 0,  0, 0, 0, 0, 0, 0])),
      rec_session = Some (\<lambda>m. Some (3, 2, nth [1 / 10, 9 / 10, 3 / 5, 2 / 5, 3 / 10, 7 / 10])),
      dictionary = ['''', ''x'']\<rparr>
     \<lparr>rows = 32, cols = 32, pixels = [()]\<rparr> (3 / 10) (1 / 2)
   = Inr [\<lparr>score = 4 / 5, x1 = 1, y1 = 1, x2 = 4, y2 = 4, line_text = ''xx''\<rparr>]
   \<and> list_all (\<lambda>r. line_text r \<noteq> [] \<and> 1 / 2 \<le> score r \<and> x1 r \<le> x2 r \<and> y1 r \<le> y2 r)
        [\<lparr>score = 4 / 5, x1 = 1, y1 = 1, x2 = 4, y2 = 4, line_text = ''xx''\<rparr>]"
proof -
  from text_line_results [OF RecognizeText_example, THEN conjunct1]
  have "list_all (\<lambda>r. line_text r \<noteq> [] \<and> 1 / 2 \<le> score r \<and> x1 r \<le> x2 r \<and> y1 r \<le> y2 r)
        [\<lparr>score = 4 / 5, x1 = 1, y1 = 1, x2 = 4, y2 = 4, line_text = ''xx''\<rparr>]"
    unfolding list_all_iff by blast
  with RecognizeText_example show ?thesis by blast
qed

text \<open>
  A layout row with raw \<open>x1 = 100\<close> and raw \<open>x2 = 50\<close> in a 200 by 200 image is emitted
  with \<open>x1 = 100\<close> and \<open>x2 = 50\<close>.
\<close>

theorem unordered_box_counterexample:
  "map x1 (decode_rows True (1, 1) 200 200 (1 / 2) 1 (nth [0, 9 / 10, 100, 0, 50, 10])) = [100]
   \<and> map x2 (decode_rows True (1, 1) 200 200 (1 / 2) 1 (nth [0, 9 / 10, 100, 0, 50, 10])) = [50]
   \<and> \<not> (100 :: real) \<le> 50"
  by (simp add: decode_rows_def List.map_filter_def decode_row_def static_cast_int_def
        DOC_CLASSES_def restore_coords_def inv_scale_def clamp_coord_def)

theorem coordinates_within_bounds_witness:
  "map x1 (detectDocLayout
     (Some \<lparr>num_inputs = 3,
            run = (\<lambda>m. Some (2, nth [0, 1 / 2, 10, 10, 50, 50,  1, 7 / 10, 20, 20, 60, 60]))\<rparr>)
     \<lparr>rows = 100, cols = 100, pixels = [()]\<rparr> (3 / 10)) = [10, 20]
   \<and> list_all (\<lambda>d. 0 \<le> x1 d \<and> x1 d \<le> x2 d \<and> x2 d \<le> 100
                    \<and> 0 \<le> y1 d \<and> y1 d \<le> y2 d \<and> y2 d \<le> 100)
       (detectDocLayout
         (Some \<lparr>num_inputs = 3,
            run = (\<lambda>m. Some (2, nth [0, 1 / 2, 10, 10, 50, 50,  1, 7 / 10, 20, 20, 60, 60]))\<rparr>)
         \<lparr>rows = 100, cols = 100, pixels = [()]\<rparr> (3 / 10))
   \<and> RecognizeText
     \<lparr>findContours = (\<lambda>b. [[(1, 1), (1, 4), (4, 4), (4, 1)]]),
      minAreaRect = (\<lambda>c. \<lparr>size_width = 3, size_height = 3,
                              vertices = ((1, 4), (1, 1), (4, 1), (4, 4))\<rparr>),
      drawContours = (\<lambda>h w c. [0, 0, 0, 0, 0, 0,  0, 255, 255, 255, 255, 0,
                                 0, 255, 255, 255, 255, 0,  0, 255, 255, 255, 255, 0,
                                 0, 255, 255, 255, 255, 0,  0, 0, 0, 0, 0, 0]),
      warpPerspective = (\<lambda>m ps wh. Inr [()]),
      rotate_90_clockwise = (\<lambda>m. [()])\<rparr>
     \<lparr>initialized = True,
      det_session = Some (\<lambda>m. Some (6, 6,
        nth [0, 0, 0, 0, 0, 0,  0, 19 / 20, 19 / 20, 19 / 20, 19 / 20, 0,
             0, 19 / 20, 19 / 20, 19 / 20, 19 / 20, 0,  0, 19 / 20, 19 / 20, 19 / 20, 19 / 20, 0,
             0, 19 / 20, 19 / 20, 19 / 20, 19 / 20, 0,  0, 0, 0, 0, 0, 0])),
      rec_session = Some (\<lambda>m. Some (3, 2, nth [1 / 10, 9 / 10, 3 / 5, 2 / 5, 3 / 10, 7 / 10])),
      dictionary = ['''', ''x'']\<rparr>
     \<lparr>rows = 32, cols = 32, pixels = [()]\<rparr> (3 / 10) (1 / 2)
   = Inr [\<lparr>score = 4 / 5, x1 = 1, y1 = 1, x2 = 4, y2 = 4, line_text = ''xx''\<rparr>]
   \<and> list_all (\<lambda>r. 0 \<le> x1 r \<and> x1 r \<le> x2 r \<and> x2 r \<le> 32
                    \<and> 0 \<le> y1 r \<and> y1 r \<le> y2 r \<and> y2 r \<le> 32)
        [\<lparr>score = 4 / 5, x1 = 1, y1 = 1, x2 = 4, y2 = 4, line_text = ''xx''\<rparr>]"
proof -
  let ?data = "nth [0, 1 / 2, 10, 10, 50, 50,  1, 7 / 10, 20, 20, 60, 60 :: real]"
  let ?s = "\<lparr>num_inputs = 3, run = (\<lambda>m. Some (2, ?data))\<rparr> :: unit layout_session"
  let ?img = "\<lparr>rows = 100, cols = 100, pixels = [()]\<rparr>"
  let ?cv = "\<lparr>findContours = (\<lambda>b. [[(1, 1), (1, 4), (4, 4), (4, 1)]]),
      minAreaRect = (\<lambda>c. \<lparr>size_width = 3, size_height = 3,
                              vertices = ((1, 4), (1, 1), (4, 1), (4, 4))\<rparr>),
      drawContours = (\<lambda>h w c. [0, 0, 0, 0, 0, 0,  0, 255, 255, 255, 255, 0,
                                 0, 255, 255, 255, 255, 0,  0, 255, 255, 255, 255, 0,
                                 0, 255, 255, 255, 255, 0,  0, 0, 0, 0, 0, 0]),
      warpPerspective = (\<lambda>m ps wh. Inr [()]),
      rotate_90_clockwise = (\<lambda>m. [()])\<rparr> :: unit opencv"
  have ord: "\<forall>i<2. ?data (i * 6 + 2) \<le> ?data (i * 6 + 4) \<and> ?data (i * 6 + 3) \<le> ?data (i * 6 + 5)"
    by (simp add: less_Suc_eq numeral_2_eq_2)
  have run: "run ?s ?img = Some (2, ?data)" by simp
  note a = coordinates_within_bounds
    [where g_session = "Some ?s" and img = ?img and conf_threshold = "3 / 10"]
  from a [THEN conjunct1] a [THEN conjunct2, THEN conjunct1] ord run
  have 1: "list_all (\<lambda>d. 0 \<le> x1 d \<and> x1 d \<le> x2 d \<and> x2 d \<le> 100
                    \<and> 0 \<le> y1 d \<and> y1 d \<le> y2 d \<and> y2 d \<le> 100)
       (detectDocLayout (Some ?s) ?img (3 / 10))"
    unfolding list_all_iff by fastforce
  have 2: "map x1 (detectDocLayout (Some ?s) ?img (3 / 10)) = [10, 20]"
    by (simp add: detectDocLayout_example)
  from coordinates_within_bounds [THEN conjunct2, THEN conjunct2, rule_format,
         OF RecognizeText_example]
  have 3: "list_all (\<lambda>r. 0 \<le> x1 r \<and> x1 r \<le> x2 r \<and> x2 r \<le> 32
                    \<and> 0 \<le> y1 r \<and> y1 r \<le> y2 r \<and> y2 r \<le> 32)
        [\<lparr>score = 4 / 5, x1 = 1, y1 = 1, x2 = 4, y2 = 4, line_text = ''xx''\<rparr>]"
    by simp
  from 1 2 3 RecognizeText_example show ?thesis by blast
qed

section \<open>The single-blob scenario\<close>

lemma sigmoid_zero: "sigmoid 0 = 1 / 2"
  by (simp add: sigmoid_def)

lemma sigmoid_gt_half:
  assumes "0 < v"
  shows "1 / 2 < sigmoid v"
proof -
  have "exp (- v) < 1" using assms by simp
  then have "1 + exp (- v) < 2" by simp
  moreover have "0 < 1 + exp (- v)" by (simp add: add_pos_pos)
  ultimately have "1 / 2 < 1 / (1 + exp (- v))"
    by (simp add: pos_less_divide_eq)
  then show ?thesis by (simp add: sigmoid_def)
qed

lemma upt16: "[0..<16] = [0,1,2,3,4,5,6,7,8,9,10,11,12,13,14,15::nat]"
  by (simp add: upt_conv_Cons)

lemma blob_binary:
  assumes "\<forall>k<16. if k \<in> {5, 6, 9, 10} then 0.9 < data k else data k = 0"
  shows "threshold_binary (1 / 2) (prob_map data 4 4)
           = [0, 0, 0, 0,  0, 255, 255, 0,  0, 255, 255, 0,  0, 0, 0, 0]"
proof -
  have z: "data k = 0" if "k < 16" and "k \<notin> {5, 6, 9, 10}" for k
    using assms that by auto
  have p: "0.9 < data 5" "0.9 < data 6" "0.9 < data 9" "0.9 < data 10"
    using assms [rule_format, of 5] assms [rule_format, of 6] assms [rule_format, of 9]
      assms [rule_format, of 10] by simp_all
  then have h: "1 / 2 < data 5" "1 / 2 < data 6" "1 / 2 < data 9" "1 / 2 < data 10"
    and g: "0 < data 5" "0 < data 6" "0 < data 9" "0 < data 10"
    by simp_all
  define vs where "vs = [0, 0, 0, 0,  0, data 5, data 6, 0,  0, data 9, data 10, 0,  0, 0, 0, 0]"
  have "map data [0..<16] = vs"
    by (simp add: upt16 z vs_def)
  then have pm: "prob_map data 4 4 = (if looks_like_logits vs then map sigmoid vs else vs)"
    by (simp add: prob_map_def Let_def)
  show ?thesis
  proof (cases "looks_like_logits vs")
    case True
    then show ?thesis
      using sigmoid_gt_half [OF g(1)] sigmoid_gt_half [OF g(2)] sigmoid_gt_half [OF g(3)]
        sigmoid_gt_half [OF g(4)]
      by (simp add: pm vs_def threshold_binary_def sigmoid_zero)
  next
    case False
    then show ?thesis
      using h by (simp add: pm vs_def threshold_binary_def)
  qed
qed

lemma blob_pixel:
  fixes x y :: int
  assumes "0 \<le> x" "x < 4" "0 \<le> y" "y < 4"
    and "[0, 0, 0, 0,  0, 255, 255, 0,  0, 255, 255, 0,  0, 0, 0, 0 :: nat] ! (nat y * 4 + nat x) \<noteq> 0"
  shows "1 \<le> x \<and> x \<le> 2 \<and> 1 \<le> y \<and> y \<le> 2"
proof -
  from assms(1,2) have x: "x = 0 \<or> x = 1 \<or> x = 2 \<or> x = 3" by arith
  from assms(3,4) have y: "y = 0 \<or> y = 1 \<or> y = 2 \<or> y = 3" by arith
  from x y assms(5) show ?thesis by auto
qed

lemma extent_le_one:
  fixes c :: "'a list" and f :: "'a \<Rightarrow> real"
  assumes "c \<noteq> []" and "\<forall>p\<in>set c. 1 \<le> f p \<and> f p \<le> 2"
  shows "0 \<le> Max (set (map f c)) - Min (set (map f c))"
    and "Max (set (map f c)) - Min (set (map f c)) \<le> 1"
proof -
  have fin: "finite (set (map f c))" and ne: "set (map f c) \<noteq> {}"
    using assms(1) by simp_all
  define a where "a = f (hd c)"
  have a: "a \<in> set (map f c)" using assms(1) by (simp add: a_def)
  have "Min (set (map f c)) \<le> a" and "a \<le> Max (set (map f c))"
    using fin a by simp_all
  then have "Min (set (map f c)) \<le> Max (set (map f c))" by simp
  then show "0 \<le> Max (set (map f c)) - Min (set (map f c))" by simp
  have "Max (set (map f c)) \<le> 2"
    using fin ne assms(2) by (simp add: Max_le_iff)
  moreover have "1 \<le> Min (set (map f c))"
    using fin ne assms(2) by (simp add: Min_ge_iff)
  ultimately show "Max (set (map f c)) - Min (set (map f c)) \<le> 1" by simp
qed

text \<open>
  C2, as the code has it. The map is 4 by 4, 0 everywhere except for values above 0.9 at
  the four positions (1,1) to (2,2), that is, at offsets 5, 6, 9 and 10; both thresholds
  are 0.5, the scale factors are 1 and the original image is 4 by 4. Of OpenCV the
  theorem assumes what its documentation says: the points of a contour are non-zero
  pixels of the binary image, and the rectangle of \<^verbatim>\<open>minAreaRect\<close> has sides that are not
  negative and an area no larger than that of the axis-parallel bounding box of the
  points. Then every contour lies within the block, its rectangle has a side of at most
  1 pixel, the size filter (shorter side below 3) discards it, and the decoder returns
  no polygon.
\<close>

theorem single_blob_is_filtered:
  assumes blob: "\<forall>k<16. if k \<in> {5, 6, 9, 10} then 0.9 < output_data k else output_data k = 0"
    and contours:
      "\<forall>c\<in>set (findContours cv
                  \<lparr>rows = 4, cols = 4, pixels = threshold_binary (1 / 2) (prob_map output_data 4 4)\<rparr>).
         \<forall>(x, y)\<in>set c. 0 \<le> x \<and> x < 4 \<and> 0 \<le> y \<and> y < 4
            \<and> threshold_binary (1 / 2) (prob_map output_data 4 4) ! (nat y * 4 + nat x) \<noteq> 0"
    and rect:
      "\<forall>c\<in>set (findContours cv
                  \<lparr>rows = 4, cols = 4, pixels = threshold_binary (1 / 2) (prob_map output_data 4 4)\<rparr>).
         c \<noteq> [] \<longrightarrow>
         0 \<le> size_width (minAreaRect cv c) \<and> 0 \<le> size_height (minAreaRect cv c)
         \<and> size_width (minAreaRect cv c) * size_height (minAreaRect cv c)
             \<le> (Max (set (map (real_of_int \<circ> fst) c)) - Min (set (map (real_of_int \<circ> fst) c)))
               * (Max (set (map (real_of_int \<circ> snd) c)) - Min (set (map (real_of_int \<circ> snd) c)))"
  shows "DBPostProcess cv output_data 4 4 1 1 4 4 (1 / 2) (1 / 2) = []"
proof -
  let ?bin = "threshold_binary (1 / 2) (prob_map output_data 4 4)"
  let ?cs = "findContours cv \<lparr>rows = 4, cols = 4, pixels = ?bin\<rparr>"
  have none: "contour_box cv (prob_map output_data 4 4) 4 4 1 1 4 4 (1 / 2) c = None"
    if c: "c \<in> set ?cs" for c
  proof (cases "length c < 4")
    case True
    then show ?thesis by (simp add: contour_box_def)
  next
    case False
    then have ne: "c \<noteq> []" by auto
    have inblock: "\<forall>p\<in>set c. 1 \<le> fst p \<and> fst p \<le> 2 \<and> 1 \<le> snd p \<and> snd p \<le> 2"
    proof
      fix p assume p: "p \<in> set c"
      obtain x y where xy: "p = (x, y)" by (cases p)
      from contours c p xy
      have "0 \<le> x \<and> x < 4 \<and> 0 \<le> y \<and> y < 4 \<and> ?bin ! (nat y * 4 + nat x) \<noteq> 0"
        by blast
      then show "1 \<le> fst p \<and> fst p \<le> 2 \<and> 1 \<le> snd p \<and> snd p \<le> 2"
        using blob_pixel [of x y] unfolding blob_binary [OF blob] xy by simp
    qed
    let ?w = "size_width (minAreaRect cv c)" and ?h = "size_height (minAreaRect cv c)"
    let ?ex = "Max (set (map (real_of_int \<circ> fst) c)) - Min (set (map (real_of_int \<circ> fst) c))"
    let ?ey = "Max (set (map (real_of_int \<circ> snd) c)) - Min (set (map (real_of_int \<circ> snd) c))"
    have ex: "0 \<le> ?ex" "?ex \<le> 1"
      using extent_le_one [OF ne, of "real_of_int \<circ> fst"] inblock by auto
    have ey: "0 \<le> ?ey" "?ey \<le> 1"
      using extent_le_one [OF ne, of "real_of_int \<circ> snd"] inblock by auto
    have "?ex * ?ey \<le> 1 * 1"
      using ex ey by (intro mult_mono) simp_all
    with rect c ne have wh: "0 \<le> ?w" "0 \<le> ?h" "?w * ?h \<le> 1"
      by (auto intro: order_trans)
    have "min ?w ?h < 3"
    proof (rule ccontr)
      assume "\<not> min ?w ?h < 3"
      then have "3 \<le> ?w" "3 \<le> ?h" by simp_all
      then have "3 * 3 \<le> ?w * ?h" by (intro mult_mono) simp_all
      with wh(3) show False by simp
    qed
    then show ?thesis by (simp add: contour_box_def Let_def)
  qed
  have "List.map_filter (contour_box cv (prob_map output_data 4 4) 4 4 1 1 4 4 (1 / 2)) ?cs = []"
    using none by (simp add: List.map_filter_def filter_empty_conv)
  then show ?thesis
    by (simp add: DBPostProcess_def Let_def std_sort_def)
qed

text \<open>
  The scenario with the values 0.95 in the block, and with what OpenCV computes for it:
  the contour (1,1), (1,2), (2,2), (2,1), its rectangle of 1 by 1 and the mask of the
  four pixels.
\<close>

theorem single_blob_counterexample:
  "DBPostProcess
     \<lparr>findContours = (\<lambda>b. [[(1, 1), (1, 2), (2, 2), (2, 1)]]),
      minAreaRect = (\<lambda>c. \<lparr>size_width = 1, size_height = 1,
                              vertices = ((1, 2), (1, 1), (2, 1), (2, 2))\<rparr>),
      drawContours = (\<lambda>h w c. [0, 0, 0, 0,  0, 255, 255, 0,  0, 255, 255, 0,  0, 0, 0, 0]),
      warpPerspective = (\<lambda>m ps wh. Inr [()]),
      rotate_90_clockwise = (\<lambda>m. [()])\<rparr>
     (nth [0, 0, 0, 0,  0, 19 / 20, 19 / 20, 0,  0, 19 / 20, 19 / 20, 0,  0, 0, 0, 0])
     4 4 1 1 4 4 (1 / 2) (1 / 2) = []
   \<and> length (DBPostProcess
     \<lparr>findContours = (\<lambda>b. [[(1, 1), (1, 2), (2, 2), (2, 1)]]),
      minAreaRect = (\<lambda>c. \<lparr>size_width = 1, size_height = 1,
                              vertices = ((1, 2), (1, 1), (2, 1), (2, 2))\<rparr>),
      drawContours = (\<lambda>h w c. [0, 0, 0, 0,  0, 255, 255, 0,  0, 255, 255, 0,  0, 0, 0, 0]),
      warpPerspective = (\<lambda>m ps wh. Inr [()]),
      rotate_90_clockwise = (\<lambda>m. [()])\<rparr>
     (nth [0, 0, 0, 0,  0, 19 / 20, 19 / 20, 0,  0, 19 / 20, 19 / 20, 0,  0, 0, 0, 0])
     4 4 1 1 4 4 (1 / 2) (1 / 2)) \<noteq> 1"
  by (simp add: DBPostProcess_def prob_map_def looks_like_logits_def minMaxLoc_def upt16
       threshold_binary_def List.map_filter_def contour_box_def cv_mean_def std_sort_def insertion_step_def Let_def)

theorem single_blob_is_filtered_witness:
  "list_all (\<lambda>k. if k \<in> {5, 6, 9, 10}
                  then 0.9 < nth [0, 0, 0, 0,  0, 19 / 20, 19 / 20, 0,  0, 19 / 20, 19 / 20, 0,  0, 0, 0, 0 :: real] k
                  else nth [0, 0, 0, 0,  0, 19 / 20, 19 / 20, 0,  0, 19 / 20, 19 / 20, 0,  0, 0, 0, 0 :: real] k = 0)
      [0..<16]
   \<and> threshold_binary (1 / 2)
        (prob_map (nth [0, 0, 0, 0,  0, 19 / 20, 19 / 20, 0,  0, 19 / 20, 19 / 20, 0,  0, 0, 0, 0]) 4 4)
       = [0, 0, 0, 0,  0, 255, 255, 0,  0, 255, 255, 0,  0, 0, 0, 0]
   \<and> DBPostProcess
     \<lparr>findContours = (\<lambda>b. [[(1, 1), (1, 2), (2, 2), (2, 1)]]),
      minAreaRect = (\<lambda>c. \<lparr>size_width = 1, size_height = 1,
                              vertices = ((1, 2), (1, 1), (2, 1), (2, 2))\<rparr>),
      drawContours = (\<lambda>h w c. [0, 0, 0, 0,  0, 255, 255, 0,  0, 255, 255, 0,  0, 0, 0, 0]),
      warpPerspective = (\<lambda>m ps wh. Inr [()]),
      rotate_90_clockwise = (\<lambda>m. [()])\<rparr>
     (nth [0, 0, 0, 0,  0, 19 / 20, 19 / 20, 0,  0, 19 / 20, 19 / 20, 0,  0, 0, 0, 0])
     4 4 1 1 4 4 (1 / 2) (1 / 2) = []"
proof -
  let ?data = "nth [0, 0, 0, 0,  0, 19 / 20, 19 / 20, 0,  0, 19 / 20, 19 / 20, 0,  0, 0, 0, 0 :: real]"
  let ?cv = "\<lparr>findContours = (\<lambda>b. [[(1, 1), (1, 2), (2, 2), (2, 1)]]),
      minAreaRect = (\<lambda>c. \<lparr>size_width = 1, size_height = 1,
                              vertices = ((1, 2), (1, 1), (2, 1), (2, 2))\<rparr>),
      drawContours = (\<lambda>h w c. [0, 0, 0, 0,  0, 255, 255, 0,  0, 255, 255, 0,  0, 0, 0, 0]),
      warpPerspective = (\<lambda>m ps wh. Inr [()]),
      rotate_90_clockwise = (\<lambda>m. [()])\<rparr> :: unit opencv"
  have l: "list_all (\<lambda>k. if k \<in> {5, 6, 9, 10} then 0.9 < ?data k else ?data k = 0) [0..<16]"
    unfolding upt16 by simp
  then have blob: "\<forall>k<16. if k \<in> {5, 6, 9, 10} then 0.9 < ?data k else ?data k = 0"
    unfolding list_all_iff by simp
  note bin = blob_binary [OF blob]
  have contours: "\<forall>c\<in>set (findContours ?cv
                  \<lparr>rows = 4, cols = 4, pixels = threshold_binary (1 / 2) (prob_map ?data 4 4)\<rparr>).
         \<forall>(x, y)\<in>set c. 0 \<le> x \<and> x < 4 \<and> 0 \<le> y \<and> y < 4
            \<and> threshold_binary (1 / 2) (prob_map ?data 4 4) ! (nat y * 4 + nat x) \<noteq> 0"
    unfolding bin by simp
  have rect: "\<forall>c\<in>set (findContours ?cv
                  \<lparr>rows = 4, cols = 4, pixels = threshold_binary (1 / 2) (prob_map ?data 4 4)\<rparr>).
         c \<noteq> [] \<longrightarrow>
         0 \<le> size_width (minAreaRect ?cv c) \<and> 0 \<le> size_height (minAreaRect ?cv c)
         \<and> size_width (minAreaRect ?cv c) * size_height (minAreaRect ?cv c)
             \<le> (Max (set (map (real_of_int \<circ> fst) c)) - Min (set (map (real_of_int \<circ> fst) c)))
               * (Max (set (map (real_of_int \<circ> snd) c)) - Min (set (map (real_of_int \<circ> snd) c)))"
    by simp
  from single_blob_is_filtered [OF blob contours rect] l bin show ?thesis by simp
qed

end
